theory Spec2Isabelle
  imports Main
begin

section \<open>JavaScript values at the model boundary\<close>

text \<open>
  The access components of \<^verbatim>\<open>src/models\<close> receive plain JavaScript objects. A field of
  such an object is an \<open>option\<close>: \<open>None\<close> is \<^verbatim>\<open>undefined\<close> (or \<^verbatim>\<open>null\<close>), the field the
  caller left out. The text fields, the two arrays and the flag are modelled with the type
  of their column. Two values reach the code without any check of their type, the
  servings of a recipe and the password of a login: they are a \<open>js_value\<close>, a number or a
  string. A number is integer-valued (the INTEGER column rejects every other number), a
  string is a list of \<open>char\<close>, the characters U+0000 to U+00FF.

  The operator \<^verbatim>\<open>x || d\<close> yields \<open>d\<close> for every falsy \<open>x\<close>: \<^verbatim>\<open>undefined\<close>, the empty
  string and the number \<open>0\<close>. Every array, also the empty one, is truthy, and so is
  every non-empty string, also \<^verbatim>\<open>"0"\<close>.
\<close>

datatype js_value = JS_number int | JS_string string

definition or_null :: "string option \<Rightarrow> string option" where
  \<comment> \<open>\<^verbatim>\<open>x || null\<close> on a string field\<close>
  "or_null x = (case x of None \<Rightarrow> None | Some s \<Rightarrow> if s = [] then None else Some s)"

definition or_default :: "js_value option \<Rightarrow> int \<Rightarrow> js_value" where
  \<comment> \<open>\<^verbatim>\<open>x || d\<close> with a number \<open>d\<close>\<close>
  "or_default x d =
     (case x of
        None \<Rightarrow> JS_number d
      | Some (JS_number n) \<Rightarrow> if n = 0 then JS_number d else JS_number n
      | Some (JS_string s) \<Rightarrow> if s = [] then JS_number d else JS_string s)"

definition or_empty :: "string list option \<Rightarrow> string list" where
  \<comment> \<open>\<^verbatim>\<open>x || []\<close> on an array field\<close>
  "or_empty x = (case x of None \<Rightarrow> [] | Some xs \<Rightarrow> xs)"

definition truthy_bool :: "bool option \<Rightarrow> bool" where
  \<comment> \<open>the condition of \<^verbatim>\<open>x ? 1 : 0\<close> on a boolean field\<close>
  "truthy_bool x = (case x of None \<Rightarrow> False | Some b \<Rightarrow> b)"

section \<open>JSON text of string arrays\<close>

text \<open>
  \<^verbatim>\<open>JSON.stringify\<close> and \<^verbatim>\<open>JSON.parse\<close>, on the values the recipe columns hold: arrays
  of strings. A character is one \<open>char\<close>. The serializer escapes the quote, the
  backslash and the control characters below U+0020 as ECMAScript does (short escapes for
  backspace, form feed, line feed, carriage return, tab; \<^verbatim>\<open>\u00xx\<close> for the others).
  The parser accepts every escape of the JSON grammar and insignificant white space;
  \<open>None\<close> stands for a text that is not a JSON array of strings, or that names a
  character beyond the range of \<open>char\<close>.
\<close>

definition hexdigit :: "nat \<Rightarrow> char" where
  "hexdigit d = (if d < 10 then char_of (48 + d) else char_of (87 + d))"

definition unhex :: "char \<Rightarrow> nat option" where
  "unhex c =
     (let n = (of_char c :: nat) in
      if 48 \<le> n \<and> n \<le> 57 then Some (n - 48)
      else if 97 \<le> n \<and> n \<le> 102 then Some (n - 87)
      else if 65 \<le> n \<and> n \<le> 70 then Some (n - 55)
      else None)"

definition escape_char :: "char \<Rightarrow> string" where
  "escape_char c =
     (let n = (of_char c :: nat) in
      if c = CHR 0x22 then [CHR 0x5C, CHR 0x22]
      else if c = CHR 0x5C then [CHR 0x5C, CHR 0x5C]
      else if n = 8 then [CHR 0x5C, CHR ''b'']
      else if n = 12 then [CHR 0x5C, CHR ''f'']
      else if n = 10 then [CHR 0x5C, CHR ''n'']
      else if n = 13 then [CHR 0x5C, CHR ''r'']
      else if n = 9 then [CHR 0x5C, CHR ''t'']
      else if n < 32 then
        [CHR 0x5C, CHR ''u'', CHR ''0'', CHR ''0'', hexdigit (n div 16), hexdigit (n mod 16)]
      else [c])"

definition unescape :: "char \<Rightarrow> char option" where
  "unescape e =
     (if e = CHR 0x22 then Some (CHR 0x22)
      else if e = CHR 0x5C then Some (CHR 0x5C)
      else if e = CHR ''/'' then Some (CHR ''/'')
      else if e = CHR ''b'' then Some (char_of (8::nat))
      else if e = CHR ''f'' then Some (char_of (12::nat))
      else if e = CHR ''n'' then Some (char_of (10::nat))
      else if e = CHR ''r'' then Some (char_of (13::nat))
      else if e = CHR ''t'' then Some (char_of (9::nat))
      else None)"

definition unhex4 :: "char \<Rightarrow> char \<Rightarrow> char \<Rightarrow> char \<Rightarrow> char option" where
  "unhex4 a b c d =
     (case (unhex a, unhex b, unhex c, unhex d) of
        (Some x, Some y, Some z, Some w) \<Rightarrow>
          (let n = ((x * 16 + y) * 16 + z) * 16 + w in
           if n < 256 then Some (char_of n) else None)
      | _ \<Rightarrow> None)"

definition quote :: "string \<Rightarrow> string" where
  "quote s = CHR 0x22 # concat (map escape_char s) @ [CHR 0x22]"

fun join_comma :: "string list \<Rightarrow> string" where
  "join_comma [] = []"
| "join_comma [x] = x"
| "join_comma (x # y # ys) = x @ CHR '','' # join_comma (y # ys)"

definition JSON_stringify :: "string list \<Rightarrow> string" where
  "JSON_stringify xs = CHR ''['' # join_comma (map quote xs) @ [CHR '']'']"

definition is_ws :: "char \<Rightarrow> bool" where
  "is_ws c =
     (c = CHR '' '' \<or> of_char c = (9::nat) \<or> of_char c = (10::nat) \<or> of_char c = (13::nat))"

definition skip_ws :: "string \<Rightarrow> string" where
  "skip_ws = dropWhile is_ws"

fun parse_chars :: "string \<Rightarrow> (string \<times> string) option" where
  "parse_chars [] = None"
| "parse_chars (c # cs) =
     (if c = CHR 0x22 then Some ([], cs)
      else if c = CHR 0x5C then
        (case cs of
           [] \<Rightarrow> None
         | e # cs1 \<Rightarrow>
             if e = CHR ''u'' then
               (case cs1 of
                  a # b # c2 # d # cs2 \<Rightarrow>
                    (case unhex4 a b c2 d of
                       None \<Rightarrow> None
                     | Some ch \<Rightarrow> map_option (\<lambda>(s, r). (ch # s, r)) (parse_chars cs2))
                | _ \<Rightarrow> None)
             else
               (case unescape e of
                  None \<Rightarrow> None
                | Some ch \<Rightarrow> map_option (\<lambda>(s, r). (ch # s, r)) (parse_chars cs1)))
      else if (of_char c :: nat) < 32 then None
      else map_option (\<lambda>(s, r). (c # s, r)) (parse_chars cs))"

definition parse_string :: "string \<Rightarrow> (string \<times> string) option" where
  "parse_string cs =
     (case cs of [] \<Rightarrow> None | c # cs1 \<Rightarrow> if c = CHR 0x22 then parse_chars cs1 else None)"

function parse_elems :: "string \<Rightarrow> (string list \<times> string) option" where
  "parse_elems cs =
     (case parse_string (skip_ws cs) of
        None \<Rightarrow> None
      | Some (s, r) \<Rightarrow>
          (case skip_ws r of
             [] \<Rightarrow> None
           | c # r1 \<Rightarrow>
               if c = CHR '']'' then Some ([s], r1)
               else if c = CHR '','' then
                 map_option (\<lambda>(ss, r2). (s # ss, r2)) (parse_elems r1)
               else None))"
  by pat_completeness auto
termination
proof (relation "measure length")
  show "wf (measure length)" by simp
next
  fix cs :: string and x2 s r x21 and x22 :: string
  assume a: "parse_string (skip_ws cs) = Some x2" "(s, r) = x2" "skip_ws r = x21 # x22"
  have chars: "parse_chars ds = Some (t, u) \<Longrightarrow> length u < length ds" for ds t u
  proof (induction ds arbitrary: t u rule: parse_chars.induct)
    case 1
    then show ?case by simp
  next
    case (2 c cs)
    show ?case
      using "2.prems" "2.IH"
      by (fastforce split: if_splits list.splits option.splits)
  qed
  have ws: "length (skip_ws ds) \<le> length ds" for ds
    by (simp add: skip_ws_def length_dropWhile_le)
  from a have "parse_string (skip_ws cs) = Some (s, r)" by simp
  then have "length r < length (skip_ws cs)"
    by (auto simp: parse_string_def split: list.splits if_splits dest: chars)
  moreover have "length x22 < length (skip_ws r)" using a by simp
  moreover have "length (skip_ws r) \<le> length r" by (rule ws)
  moreover have "length (skip_ws cs) \<le> length cs" by (rule ws)
  ultimately show "(x22, cs) \<in> measure length" by simp
qed

definition JSON_parse :: "string \<Rightarrow> string list option" where
  "JSON_parse cs =
     (case skip_ws cs of
        [] \<Rightarrow> None
      | c # r \<Rightarrow>
          if c \<noteq> CHR ''['' then None
          else (case skip_ws r of
                  [] \<Rightarrow> None
                | c2 # r2 \<Rightarrow>
                    if c2 = CHR '']'' then (if skip_ws r2 = [] then Some [] else None)
                    else (case parse_elems r of
                            None \<Rightarrow> None
                          | Some (ss, r3) \<Rightarrow> if skip_ws r3 = [] then Some ss else None)))"

section \<open>The store (\<^verbatim>\<open>src/db.js\<close>)\<close>

text \<open>
  The three relations the access components use, each a list of rows in insertion order.
  A nullable column is an \<open>option\<close>. \<^verbatim>\<open>unixepoch()\<close> is the parameter \<open>now\<close> of the
  operations that read the clock. The two \<^verbatim>\<open>AUTOINCREMENT\<close> keys come from counters
  that only grow.
\<close>

datatype error =
    SQLITE_CONSTRAINT_NOTNULL
  | SQLITE_CONSTRAINT_PRIMARYKEY
  | SQLITE_CONSTRAINT_UNIQUE
  | SQLITE_CONSTRAINT_FOREIGNKEY
  | SQLITE_CONSTRAINT_DATATYPE
  | SyntaxError
  | BcryptArgumentError

record user_row =
  u_id :: int
  u_name :: string
  u_email :: string
  u_password_hash :: string
  u_created_at :: int
  u_updated_at :: int

record recipe_row =
  r_id :: string
  r_user_id :: int
  r_title :: string
  r_time :: "string option"
  r_servings :: "int option"
  r_category :: "string option"
  r_source_url :: "string option"
  r_image_url :: "string option"
  r_image_path :: "string option"
  r_ingredients :: string
  r_steps :: string
  r_notes :: "string option"
  r_is_scraped :: "int option"
  r_created_at :: int
  r_updated_at :: int

record favorite_row =
  f_id :: int
  f_user_id :: int
  f_recipe_id :: string
  f_created_at :: int

record db =
  users :: "user_row list"
  recipes :: "recipe_row list"
  favorites :: "favorite_row list"
  users_seq :: int
  favorites_seq :: int

definition InitializeDatabase :: db where
  \<comment> \<open>the tables as \<^verbatim>\<open>CREATE TABLE IF NOT EXISTS\<close> leaves them on a new file\<close>
  "InitializeDatabase =
     \<lparr>users = [], recipes = [], favorites = [], users_seq = 0, favorites_seq = 0\<rparr>"

text \<open>
  A value bound to an INTEGER column of a \<^verbatim>\<open>STRICT\<close> table is stored if it converts to
  a 64-bit integer without loss, and raises \<^verbatim>\<open>SQLITE_CONSTRAINT_DATATYPE\<close> otherwise.
  \<^verbatim>\<open>better-sqlite3\<close> binds a number as a double: an integer-valued one converts if it
  lies strictly between \<open>-2^63\<close> and \<open>2^63\<close>. A string is bound as text, which
  SQLite reads as a number where it can (\<^verbatim>\<open>"0"\<close> gives 0, \<^verbatim>\<open>"abc"\<close> gives nothing). That
  reading belongs to the engine, not to the repository: it is the parameter \<open>affinity\<close>,
  with \<open>None\<close> for a text the column rejects.
\<close>

definition int64_storable :: "int \<Rightarrow> bool" where
  "int64_storable n = (- (2 ^ 63) < n \<and> n < 2 ^ 63)"

definition strict_integer :: "(string \<Rightarrow> int option) \<Rightarrow> js_value \<Rightarrow> int option" where
  "strict_integer affinity v =
     (case v of
        JS_number n \<Rightarrow> if int64_storable n then Some n else None
      | JS_string s \<Rightarrow> affinity s)"

text \<open>
  \<^verbatim>\<open>ORDER BY created_at DESC\<close>: a stable sort of the rows in table order. SQL leaves the
  order of rows with equal keys open; the model keeps their insertion order.
\<close>

definition order_by_created_desc :: "recipe_row list \<Rightarrow> recipe_row list" where
  "order_by_created_desc rows = sort_key (\<lambda>r. - r_created_at r) rows"

text \<open>
  SQLite's \<^verbatim>\<open>LIKE\<close> without \<^verbatim>\<open>ESCAPE\<close>: in the pattern \<^verbatim>\<open>%\<close> matches any run of
  characters, \<^verbatim>\<open>_\<close> exactly one, and every other character matches itself, upper and
  lower case ASCII letters alike.
\<close>

definition ascii_lower :: "char \<Rightarrow> char" where
  "ascii_lower c =
     (let n = (of_char c :: nat) in if 65 \<le> n \<and> n \<le> 90 then char_of (n + 32) else c)"

fun sql_like :: "string \<Rightarrow> string \<Rightarrow> bool" where
  "sql_like [] [] = True"
| "sql_like [] (c # cs) = False"
| "sql_like (p # ps) cs =
     (if p = CHR ''%'' then
        (sql_like ps cs \<or> (case cs of [] \<Rightarrow> False | c # cs1 \<Rightarrow> sql_like (p # ps) cs1))
      else
        (case cs of
           [] \<Rightarrow> False
         | c # cs1 \<Rightarrow> (p = CHR ''_'' \<or> ascii_lower p = ascii_lower c) \<and> sql_like ps cs1))"

section \<open>Recipe access (\<^verbatim>\<open>src/models/Recipe.js\<close>)\<close>

record recipe_data =
  d_title :: "string option"
  d_time :: "string option"
  d_servings :: "js_value option"
  d_category :: "string option"
  d_source_url :: "string option"
  d_image_url :: "string option"
  d_image_path :: "string option"
  d_ingredients :: "string list option"
  d_steps :: "string list option"
  d_notes :: "string option"
  d_is_scraped :: "bool option"

text \<open>The object a read returns: the row with both JSON columns parsed and the flag a boolean.\<close>

record recipe =
  o_id :: string
  o_user_id :: int
  o_title :: string
  o_time :: "string option"
  o_servings :: "int option"
  o_category :: "string option"
  o_source_url :: "string option"
  o_image_url :: "string option"
  o_image_path :: "string option"
  o_ingredients :: "string list"
  o_steps :: "string list"
  o_notes :: "string option"
  o_is_scraped :: bool
  o_created_at :: int
  o_updated_at :: int

definition Boolean :: "int option \<Rightarrow> bool" where
  "Boolean x = (case x of None \<Rightarrow> False | Some n \<Rightarrow> n \<noteq> 0)"

definition parse_row :: "recipe_row \<Rightarrow> error + recipe" where
  \<comment> \<open>the object spread with \<^verbatim>\<open>JSON.parse\<close> of both columns; a parse failure throws\<close>
  "parse_row r =
     (case JSON_parse (r_ingredients r) of
        None \<Rightarrow> Inl SyntaxError
      | Some ings \<Rightarrow>
          (case JSON_parse (r_steps r) of
             None \<Rightarrow> Inl SyntaxError
           | Some sts \<Rightarrow>
               Inr \<lparr>o_id = r_id r, o_user_id = r_user_id r, o_title = r_title r,
                    o_time = r_time r, o_servings = r_servings r, o_category = r_category r,
                    o_source_url = r_source_url r, o_image_url = r_image_url r,
                    o_image_path = r_image_path r, o_ingredients = ings, o_steps = sts,
                    o_notes = r_notes r, o_is_scraped = Boolean (r_is_scraped r),
                    o_created_at = r_created_at r, o_updated_at = r_updated_at r\<rparr>))"

fun parse_rows :: "recipe_row list \<Rightarrow> error + recipe list" where
  \<comment> \<open>\<^verbatim>\<open>recipes.map(r => ...)\<close>: the first row that fails to parse throws\<close>
  "parse_rows [] = Inr []"
| "parse_rows (r # rs) =
     (case parse_row r of
        Inl e \<Rightarrow> Inl e
      | Inr x \<Rightarrow> (case parse_rows rs of Inl e \<Rightarrow> Inl e | Inr xs \<Rightarrow> Inr (x # xs)))"

definition owned :: "string \<Rightarrow> int \<Rightarrow> recipe_row \<Rightarrow> bool" where
  \<comment> \<open>\<^verbatim>\<open>WHERE id = ? AND user_id = ?\<close>\<close>
  "owned rid userId r = (r_id r = rid \<and> r_user_id r = userId)"

definition bound_servings :: "(string \<Rightarrow> int option) \<Rightarrow> recipe_data \<Rightarrow> int option" where
  \<comment> \<open>what the servings column holds for the bound value \<^verbatim>\<open>recipeData.servings || 2\<close>;
      \<open>None\<close> when the column rejects it\<close>
  "bound_servings affinity recipeData =
     strict_integer affinity (or_default (d_servings recipeData) 2)"

definition new_row ::
  "string \<Rightarrow> int \<Rightarrow> int \<Rightarrow> string \<Rightarrow> int \<Rightarrow> recipe_data \<Rightarrow> recipe_row" where
  \<comment> \<open>the row the \<^verbatim>\<open>INSERT\<close> of \<^verbatim>\<open>Recipe.create\<close> writes for the \<^verbatim>\<open>VALUES\<close> it binds,
      with title \<open>t\<close> and servings \<open>n\<close>; both timestamps are the column default
      \<^verbatim>\<open>unixepoch()\<close>\<close>
  "new_row uuid now userId t n recipeData =
     \<lparr>r_id = uuid, r_user_id = userId, r_title = t,
      r_time = or_null (d_time recipeData),
      r_servings = Some n,
      r_category = or_null (d_category recipeData),
      r_source_url = or_null (d_source_url recipeData),
      r_image_url = or_null (d_image_url recipeData),
      r_image_path = or_null (d_image_path recipeData),
      r_ingredients = JSON_stringify (or_empty (d_ingredients recipeData)),
      r_steps = JSON_stringify (or_empty (d_steps recipeData)),
      r_notes = or_null (d_notes recipeData),
      r_is_scraped = Some (if truthy_bool (d_is_scraped recipeData) then 1 else 0),
      r_created_at = now, r_updated_at = now\<rparr>"

definition Recipe_create ::
  "(string \<Rightarrow> int option) \<Rightarrow> string \<Rightarrow> int \<Rightarrow> int \<Rightarrow> recipe_data \<Rightarrow> db \<Rightarrow>
   error + (string \<times> db)" where
  \<comment> \<open>\<open>uuid\<close> is what \<^verbatim>\<open>randomUUID()\<close> returns. The \<^verbatim>\<open>INSERT\<close> checks \<^verbatim>\<open>NOT NULL\<close>, then
      the datatypes of the \<^verbatim>\<open>STRICT\<close> columns (the user id and the servings are the
      bound values that can fail), then the primary key, then the foreign key to
      \<^verbatim>\<open>users\<close>.\<close>
  "Recipe_create affinity uuid now userId recipeData d =
     (case d_title recipeData of
        None \<Rightarrow> Inl SQLITE_CONSTRAINT_NOTNULL
      | Some t \<Rightarrow>
          if \<not> int64_storable userId then Inl SQLITE_CONSTRAINT_DATATYPE
          else
            (case bound_servings affinity recipeData of
               None \<Rightarrow> Inl SQLITE_CONSTRAINT_DATATYPE
             | Some n \<Rightarrow>
                 if uuid \<in> set (map r_id (recipes d)) then Inl SQLITE_CONSTRAINT_PRIMARYKEY
                 else if userId \<notin> set (map u_id (users d)) then
                   Inl SQLITE_CONSTRAINT_FOREIGNKEY
                 else
                   Inr (uuid,
                     d\<lparr>recipes := recipes d @ [new_row uuid now userId t n recipeData]\<rparr>)))"

definition Recipe_findByUserId :: "int \<Rightarrow> db \<Rightarrow> error + recipe list" where
  "Recipe_findByUserId userId d =
     parse_rows (order_by_created_desc (filter (\<lambda>r. r_user_id r = userId) (recipes d)))"

definition Recipe_findById :: "string \<Rightarrow> int \<Rightarrow> db \<Rightarrow> error + recipe option" where
  "Recipe_findById rid userId d =
     (case filter (owned rid userId) (recipes d) of
        [] \<Rightarrow> Inr None
      | r # _ \<Rightarrow> (case parse_row r of Inl e \<Rightarrow> Inl e | Inr x \<Rightarrow> Inr (Some x)))"

definition update_row ::
  "string \<Rightarrow> int \<Rightarrow> recipe_data \<Rightarrow> int \<Rightarrow> recipe_row \<Rightarrow> recipe_row" where
  \<comment> \<open>the \<^verbatim>\<open>SET\<close> list of the \<^verbatim>\<open>UPDATE\<close> for the values the statement binds, with
      title \<open>t\<close> and servings \<open>n\<close>\<close>
  "update_row t n recipeData now r =
     r\<lparr>r_title := t,
       r_time := or_null (d_time recipeData),
       r_servings := Some n,
       r_category := or_null (d_category recipeData),
       r_source_url := or_null (d_source_url recipeData),
       r_image_url := or_null (d_image_url recipeData),
       r_image_path := or_null (d_image_path recipeData),
       r_ingredients := JSON_stringify (or_empty (d_ingredients recipeData)),
       r_steps := JSON_stringify (or_empty (d_steps recipeData)),
       r_notes := or_null (d_notes recipeData),
       r_updated_at := now\<rparr>"

definition Recipe_update ::
  "(string \<Rightarrow> int option) \<Rightarrow> int \<Rightarrow> string \<Rightarrow> int \<Rightarrow> recipe_data \<Rightarrow> db \<Rightarrow>
   error + (bool \<times> db)" where
  \<comment> \<open>The \<^verbatim>\<open>UPDATE\<close> rewrites every row its \<^verbatim>\<open>WHERE\<close> clause selects, and
      \<^verbatim>\<open>result.changes\<close> counts them. \<^verbatim>\<open>NOT NULL\<close> on the title and then the datatype of
      the servings are checked when a row is written, so a missing title or a rejected
      servings value throws only if a row is selected.\<close>
  "Recipe_update affinity now rid userId recipeData d =
     (case d_title recipeData of
        None \<Rightarrow>
          if filter (owned rid userId) (recipes d) = [] then Inr (False, d)
          else Inl SQLITE_CONSTRAINT_NOTNULL
      | Some t \<Rightarrow>
          (case bound_servings affinity recipeData of
             None \<Rightarrow>
               if filter (owned rid userId) (recipes d) = [] then Inr (False, d)
               else Inl SQLITE_CONSTRAINT_DATATYPE
           | Some n \<Rightarrow>
               Inr (0 < length (filter (owned rid userId) (recipes d)),
                 d\<lparr>recipes :=
                     map (\<lambda>r. if owned rid userId r then update_row t n recipeData now r else r)
                       (recipes d)\<rparr>)))"

definition Recipe_delete :: "string \<Rightarrow> int \<Rightarrow> db \<Rightarrow> bool \<times> db" where
  \<comment> \<open>The \<^verbatim>\<open>DELETE\<close> removes every row its \<^verbatim>\<open>WHERE\<close> clause selects; the favorites
      that refer to a removed recipe go with it (\<^verbatim>\<open>ON DELETE CASCADE\<close>).\<close>
  "Recipe_delete rid userId d =
     (0 < length (filter (owned rid userId) (recipes d)),
      d\<lparr>recipes := filter (\<lambda>r. \<not> owned rid userId r) (recipes d),
        favorites :=
          filter (\<lambda>f. f_recipe_id f \<notin> set (map r_id (filter (owned rid userId) (recipes d))))
            (favorites d)\<rparr>)"

definition Recipe_search :: "int \<Rightarrow> string \<Rightarrow> db \<Rightarrow> error + recipe list" where
  \<comment> \<open>the pattern is \<^verbatim>\<open>`%${query}%`\<close>: the query text goes into it as it is\<close>
  "Recipe_search userId query d =
     parse_rows (order_by_created_desc
       (filter (\<lambda>r. r_user_id r = userId \<and> sql_like (CHR ''%'' # query @ [CHR ''%'']) (r_title r))
          (recipes d)))"

definition Recipe_findByCategory :: "int \<Rightarrow> string \<Rightarrow> db \<Rightarrow> error + recipe list" where
  "Recipe_findByCategory userId category d =
     parse_rows (order_by_created_desc
       (filter (\<lambda>r. r_user_id r = userId \<and> r_category r = Some category) (recipes d)))"

section \<open>Favorite access (\<^verbatim>\<open>Favorite\<close> in \<^verbatim>\<open>src/models\<close>)\<close>

definition favorited :: "int \<Rightarrow> string \<Rightarrow> favorite_row \<Rightarrow> bool" where
  \<comment> \<open>\<^verbatim>\<open>WHERE user_id = ? AND recipe_id = ?\<close>\<close>
  "favorited userId recipeId f = (f_user_id f = userId \<and> f_recipe_id f = recipeId)"

definition favorites_insert :: "int \<Rightarrow> int \<Rightarrow> string \<Rightarrow> db \<Rightarrow> error + db" where
  \<comment> \<open>the \<^verbatim>\<open>INSERT\<close> of \<^verbatim>\<open>Favorite.add\<close>: \<^verbatim>\<open>UNIQUE(user_id, recipe_id)\<close> is checked when
      the row is written, the two foreign keys when the statement ends\<close>
  "favorites_insert now userId recipeId d =
     (if filter (favorited userId recipeId) (favorites d) \<noteq> [] then
        Inl SQLITE_CONSTRAINT_UNIQUE
      else if userId \<notin> set (map u_id (users d)) \<or> recipeId \<notin> set (map r_id (recipes d)) then
        Inl SQLITE_CONSTRAINT_FOREIGNKEY
      else
        Inr (d\<lparr>favorites := favorites d @
                  [\<lparr>f_id = favorites_seq d + 1, f_user_id = userId,
                    f_recipe_id = recipeId, f_created_at = now\<rparr>],
                favorites_seq := favorites_seq d + 1\<rparr>))"

definition Favorite_add :: "int \<Rightarrow> int \<Rightarrow> string \<Rightarrow> db \<Rightarrow> error + (bool \<times> db)" where
  \<comment> \<open>\<^verbatim>\<open>try { ...; return true } catch (error) { if (error.code === ...) return false; throw error }\<close>\<close>
  "Favorite_add now userId recipeId d =
     (case favorites_insert now userId recipeId d of
        Inr d' \<Rightarrow> Inr (True, d')
      | Inl e \<Rightarrow> if e = SQLITE_CONSTRAINT_UNIQUE then Inr (False, d) else Inl e)"

definition Favorite_remove :: "int \<Rightarrow> string \<Rightarrow> db \<Rightarrow> bool \<times> db" where
  "Favorite_remove userId recipeId d =
     (0 < length (filter (favorited userId recipeId) (favorites d)),
      d\<lparr>favorites := filter (\<lambda>f. \<not> favorited userId recipeId f) (favorites d)\<rparr>)"

definition Favorite_isFavorited :: "int \<Rightarrow> string \<Rightarrow> db \<Rightarrow> bool" where
  "Favorite_isFavorited userId recipeId d =
     (filter (favorited userId recipeId) (favorites d) \<noteq> [])"

definition Favorite_getFavoriteIds :: "int \<Rightarrow> db \<Rightarrow> string list" where
  "Favorite_getFavoriteIds userId d =
     map f_recipe_id
       (sort_key (\<lambda>f. - f_created_at f) (filter (\<lambda>f. f_user_id f = userId) (favorites d)))"

definition Favorite_getFavoriteRecipes :: "int \<Rightarrow> db \<Rightarrow> error + recipe list" where
  "Favorite_getFavoriteRecipes userId d =
     parse_rows (concat (map (\<lambda>f. filter (\<lambda>r. r_id r = f_recipe_id f) (recipes d))
       (sort_key (\<lambda>f. - f_created_at f) (filter (\<lambda>f. f_user_id f = userId) (favorites d)))))"

section \<open>User access (\<^verbatim>\<open>User\<close> in \<^verbatim>\<open>src/models\<close>)\<close>

text \<open>
  The \<^verbatim>\<open>bcrypt\<close> package is not part of the repository: hashing and comparing a
  password string are parameters. The package checks the type of its arguments before it
  compares; that check is written out in \<open>bcrypt_compareSync\<close>.
\<close>

record bcrypt =
  hashSync :: "string \<Rightarrow> string"
  compareSync :: "string \<Rightarrow> string \<Rightarrow> bool"

definition User_create ::
  "bcrypt \<Rightarrow> int \<Rightarrow> string \<Rightarrow> string \<Rightarrow> string \<Rightarrow> db \<Rightarrow> error + (int \<times> db)" where
  "User_create bc now name email password d =
     (if email \<in> set (map u_email (users d)) then Inl SQLITE_CONSTRAINT_UNIQUE
      else Inr (users_seq d + 1,
        d\<lparr>users := users d @
             [\<lparr>u_id = users_seq d + 1, u_name = name, u_email = email,
               u_password_hash = hashSync bc password, u_created_at = now, u_updated_at = now\<rparr>],
           users_seq := users_seq d + 1\<rparr>))"

definition User_findByEmail :: "string \<Rightarrow> db \<Rightarrow> user_row option" where
  "User_findByEmail email d = find (\<lambda>u. u_email u = email) (users d)"

definition User_findById :: "int \<Rightarrow> db \<Rightarrow> user_row option" where
  "User_findById uid d = find (\<lambda>u. u_id u = uid) (users d)"

definition bcrypt_compareSync :: "bcrypt \<Rightarrow> js_value \<Rightarrow> string \<Rightarrow> error + bool" where
  \<comment> \<open>\<^verbatim>\<open>bcrypt.compareSync(data, hash)\<close> throws unless \<open>data\<close> is a string (or a
      buffer, which no request body holds); on a string it compares\<close>
  "bcrypt_compareSync bc data hash =
     (case data of
        JS_string s \<Rightarrow> Inr (compareSync bc s hash)
      | JS_number n \<Rightarrow> Inl BcryptArgumentError)"

definition User_verifyPassword :: "bcrypt \<Rightarrow> user_row \<Rightarrow> js_value \<Rightarrow> error + bool" where
  "User_verifyPassword bc user password =
     bcrypt_compareSync bc password (u_password_hash user)"

definition User_updateActivity :: "int \<Rightarrow> int \<Rightarrow> db \<Rightarrow> db" where
  "User_updateActivity now uid d =
     d\<lparr>users := map (\<lambda>u. if u_id u = uid then u\<lparr>u_updated_at := now\<rparr> else u) (users d)\<rparr>"

section \<open>Requests, responses and the authentication check\<close>

text \<open>
  A response is the status and the JSON body. Every handler also reports the calls it
  made to the access components, in order.
\<close>

datatype payload =
    P_error string "string option"
  | P_validation "string list"
  | P_recipes "recipe list"
  | P_recipe recipe
  | P_created string string
  | P_message string
  | P_favorited bool string
  | P_favoriteIds "string list"
  | P_user "string option" int string string

type_synonym response = "nat \<times> payload"

datatype call =
    Call_Recipe_create | Call_Recipe_findByUserId | Call_Recipe_findById
  | Call_Recipe_update | Call_Recipe_delete | Call_Recipe_search
  | Call_Favorite_add | Call_Favorite_remove | Call_Favorite_isFavorited
  | Call_Favorite_getFavoriteIds | Call_Favorite_getFavoriteRecipes

record session =
  s_userId :: "int option"
  s_email :: "string option"
  s_name :: "string option"

definition requireAuth :: "session \<Rightarrow> response + int" where
  \<comment> \<open>\<open>Inl\<close>: the 401 response, and \<^verbatim>\<open>next()\<close> is not called. \<open>Inr\<close>: \<^verbatim>\<open>next()\<close> runs with
      the truthy \<^verbatim>\<open>req.session.userId\<close> the handlers read.\<close>
  "requireAuth sess =
     (case s_userId sess of
        None \<Rightarrow> Inl (401, P_error ''Authentication required''
                  (Some ''You must be logged in to access this resource''))
      | Some uid \<Rightarrow>
          if uid = 0 then Inl (401, P_error ''Authentication required''
                  (Some ''You must be logged in to access this resource''))
          else Inr uid)"

text \<open>
  The environment of a request: the engine's reading of a text as an integer, the clock,
  the next UUID, and the \<^verbatim>\<open>express-validator\<close>
  chains of the two recipe handlers (a package outside the repository), each giving the
  errors it found or the body after its sanitizers.
\<close>

record env =
  e_affinity :: "string \<Rightarrow> int option"
  e_now :: int
  e_uuid :: string
  e_createRecipe_validation :: "recipe_data \<Rightarrow> string list + recipe_data"
  e_updateRecipe_validation :: "recipe_data \<Rightarrow> string list + recipe_data"

section \<open>Recipe handlers (\<^verbatim>\<open>src/controllers/recipeController.js\<close>)\<close>

definition getAllRecipes :: "int \<Rightarrow> db \<Rightarrow> response \<times> db \<times> call list" where
  "getAllRecipes userId d =
     (case Recipe_findByUserId userId d of
        Inl e \<Rightarrow> ((500, P_error ''Failed to fetch recipes''
                   (Some ''An error occurred while fetching recipes'')), d,
                  [Call_Recipe_findByUserId])
      | Inr rs \<Rightarrow> ((200, P_recipes rs), d, [Call_Recipe_findByUserId]))"

definition getRecipeById :: "string \<Rightarrow> int \<Rightarrow> db \<Rightarrow> response \<times> db \<times> call list" where
  "getRecipeById rid userId d =
     (case Recipe_findById rid userId d of
        Inl e \<Rightarrow> ((500, P_error ''Failed to fetch recipe''
                   (Some ''An error occurred while fetching the recipe'')), d,
                  [Call_Recipe_findById])
      | Inr None \<Rightarrow> ((404, P_error ''Recipe not found''
                   (Some ''Recipe does not exist or you don't have permission to view it'')), d,
                  [Call_Recipe_findById])
      | Inr (Some r) \<Rightarrow> ((200, P_recipe r), d, [Call_Recipe_findById]))"

definition createRecipe :: "env \<Rightarrow> recipe_data \<Rightarrow> int \<Rightarrow> db \<Rightarrow> response \<times> db \<times> call list" where
  "createRecipe ev body userId d =
     (case e_createRecipe_validation ev body of
        Inl errors \<Rightarrow> ((400, P_validation errors), d, [])
      | Inr b \<Rightarrow>
          (case Recipe_create (e_affinity ev) (e_uuid ev) (e_now ev) userId
                  (b\<lparr>d_is_scraped := Some (truthy_bool (d_is_scraped b))\<rparr>) d of
             Inl e \<Rightarrow> ((500, P_error ''Failed to create recipe''
                        (Some ''An error occurred while creating the recipe'')), d,
                       [Call_Recipe_create])
           | Inr (recipeId, d') \<Rightarrow>
               ((201, P_created ''Recipe created successfully'' recipeId), d',
                [Call_Recipe_create])))"

definition updateRecipe ::
  "env \<Rightarrow> string \<Rightarrow> recipe_data \<Rightarrow> int \<Rightarrow> db \<Rightarrow> response \<times> db \<times> call list" where
  "updateRecipe ev rid body userId d =
     (case e_updateRecipe_validation ev body of
        Inl errors \<Rightarrow> ((400, P_validation errors), d, [])
      | Inr b \<Rightarrow>
          (case Recipe_update (e_affinity ev) (e_now ev) rid userId
                  (b\<lparr>d_is_scraped := None\<rparr>) d of
             Inl e \<Rightarrow> ((500, P_error ''Failed to update recipe''
                        (Some ''An error occurred while updating the recipe'')), d,
                       [Call_Recipe_update])
           | Inr (updated, d') \<Rightarrow>
               if \<not> updated then
                 ((404, P_error ''Recipe not found''
                    (Some ''Recipe does not exist or you don't have permission to update it'')),
                  d', [Call_Recipe_update])
               else ((200, P_message ''Recipe updated successfully''), d',
                     [Call_Recipe_update])))"

definition deleteRecipe :: "string \<Rightarrow> int \<Rightarrow> db \<Rightarrow> response \<times> db \<times> call list" where
  "deleteRecipe rid userId d =
     (case Recipe_delete rid userId d of
        (deleted, d') \<Rightarrow>
          if \<not> deleted then
            ((404, P_error ''Recipe not found''
               (Some ''Recipe does not exist or you don't have permission to delete it'')),
             d', [Call_Recipe_delete])
          else ((200, P_message ''Recipe deleted successfully''), d', [Call_Recipe_delete]))"

definition searchRecipes :: "string option \<Rightarrow> int \<Rightarrow> db \<Rightarrow> response \<times> db \<times> call list" where
  \<comment> \<open>\<^verbatim>\<open>req.query.q || ""\<close>\<close>
  "searchRecipes q userId d =
     (case Recipe_search userId (case q of None \<Rightarrow> [] | Some t \<Rightarrow> t) d of
        Inl e \<Rightarrow> ((500, P_error ''Failed to search recipes''
                   (Some ''An error occurred while searching recipes'')), d,
                  [Call_Recipe_search])
      | Inr rs \<Rightarrow> ((200, P_recipes rs), d, [Call_Recipe_search]))"

section \<open>Favorite handlers (\<^verbatim>\<open>src/controllers/favoriteController.js\<close>)\<close>

definition toggleFavorite ::
  "int \<Rightarrow> string option \<Rightarrow> int \<Rightarrow> db \<Rightarrow> response \<times> db \<times> call list" where
  "toggleFavorite now recipeId userId d =
     (case or_null recipeId of
        None \<Rightarrow> ((400, P_error ''Recipe ID is required'' None), d, [])
      | Some rid \<Rightarrow>
          if Favorite_isFavorited userId rid d then
            ((200, P_favorited False ''Recipe removed from favorites''),
             snd (Favorite_remove userId rid d),
             [Call_Favorite_isFavorited, Call_Favorite_remove])
          else
            (case Favorite_add now userId rid d of
               Inl e \<Rightarrow> ((500, P_error ''Failed to toggle favorite''
                          (Some ''An error occurred while updating favorites'')), d,
                         [Call_Favorite_isFavorited, Call_Favorite_add])
             | Inr (added, d') \<Rightarrow>
                 ((200, P_favorited True ''Recipe added to favorites''), d',
                  [Call_Favorite_isFavorited, Call_Favorite_add])))"

definition getFavorites :: "int \<Rightarrow> db \<Rightarrow> response \<times> db \<times> call list" where
  "getFavorites userId d =
     ((200, P_favoriteIds (Favorite_getFavoriteIds userId d)), d,
      [Call_Favorite_getFavoriteIds])"

definition getFavoriteRecipes :: "int \<Rightarrow> db \<Rightarrow> response \<times> db \<times> call list" where
  "getFavoriteRecipes userId d =
     (case Favorite_getFavoriteRecipes userId d of
        Inl e \<Rightarrow> ((500, P_error ''Failed to fetch favorite recipes''
                   (Some ''An error occurred while fetching favorite recipes'')), d,
                  [Call_Favorite_getFavoriteRecipes])
      | Inr rs \<Rightarrow> ((200, P_recipes rs), d, [Call_Favorite_getFavoriteRecipes]))"

section \<open>The two protected routers (\<^verbatim>\<open>routes/recipes.js\<close>, \<^verbatim>\<open>routes/favorites.js\<close>)\<close>

text \<open>
  A request is the route it matches, with the parameters the handler reads. Both routers
  start with \<^verbatim>\<open>router.use(requireAuth)\<close>, so the check runs first also for a request that
  matches no route of the router; such a request, once past the check, reaches the 404
  handler of the application.
\<close>

datatype recipes_request =
    GET_recipes
  | GET_recipes_search "string option"
  | GET_recipes_id string
  | POST_recipes recipe_data
  | PUT_recipes_id string recipe_data
  | DELETE_recipes_id string
  | OTHER_recipes

datatype favorites_request =
    POST_favorites_toggle "string option"
  | GET_favorites
  | GET_favorites_recipes
  | OTHER_favorites

definition not_found :: response where
  "not_found = (404, P_error ''Not found'' (Some ''The requested resource was not found''))"

definition recipes_router ::
  "env \<Rightarrow> session \<Rightarrow> recipes_request \<Rightarrow> db \<Rightarrow> response \<times> db \<times> call list" where
  "recipes_router ev sess req d =
     (case requireAuth sess of
        Inl rejected \<Rightarrow> (rejected, d, [])
      | Inr userId \<Rightarrow>
          (case req of
             GET_recipes \<Rightarrow> getAllRecipes userId d
           | GET_recipes_search q \<Rightarrow> searchRecipes q userId d
           | GET_recipes_id rid \<Rightarrow> getRecipeById rid userId d
           | POST_recipes body \<Rightarrow> createRecipe ev body userId d
           | PUT_recipes_id rid body \<Rightarrow> updateRecipe ev rid body userId d
           | DELETE_recipes_id rid \<Rightarrow> deleteRecipe rid userId d
           | OTHER_recipes \<Rightarrow> (not_found, d, [])))"

definition favorites_router ::
  "env \<Rightarrow> session \<Rightarrow> favorites_request \<Rightarrow> db \<Rightarrow> response \<times> db \<times> call list" where
  "favorites_router ev sess req d =
     (case requireAuth sess of
        Inl rejected \<Rightarrow> (rejected, d, [])
      | Inr userId \<Rightarrow>
          (case req of
             POST_favorites_toggle recipeId \<Rightarrow> toggleFavorite (e_now ev) recipeId userId d
           | GET_favorites \<Rightarrow> getFavorites userId d
           | GET_favorites_recipes \<Rightarrow> getFavoriteRecipes userId d
           | OTHER_favorites \<Rightarrow> (not_found, d, [])))"

section \<open>Login (\<^verbatim>\<open>controllers/authController.js\<close>)\<close>

text \<open>
  The validation chain of \<^verbatim>\<open>login\<close> is the parameter \<open>validation\<close>: the errors, or the
  email and the password it lets through. Its rule for the password, \<^verbatim>\<open>notEmpty()\<close>,
  does not change the value and does not ask for a string, so the password the handler
  reads is a \<open>js_value\<close>. \<^verbatim>\<open>User.verifyPassword\<close> is called only when an account was
  found; what it throws is caught by the handler and answered with status 500.
\<close>

definition login ::
  "bcrypt \<Rightarrow> (string option \<times> js_value option \<Rightarrow> string list + string \<times> js_value) \<Rightarrow> int \<Rightarrow>
   string option \<times> js_value option \<Rightarrow> session \<Rightarrow> db \<Rightarrow> response \<times> db \<times> session" where
  "login bc validation now body sess d =
     (case validation body of
        Inl errors \<Rightarrow> ((400, P_validation errors), d, sess)
      | Inr (email, password) \<Rightarrow>
          (case User_findByEmail email d of
             None \<Rightarrow> ((401, P_error ''Invalid credentials''
                         (Some ''Incorrect email or password'')), d, sess)
           | Some user \<Rightarrow>
               (case User_verifyPassword bc user password of
                  Inl e \<Rightarrow> ((500, P_error ''Login failed''
                              (Some ''An error occurred during login'')), d, sess)
                | Inr matches \<Rightarrow>
                    if \<not> matches then
                      ((401, P_error ''Invalid credentials''
                         (Some ''Incorrect email or password'')), d, sess)
                    else
                      ((200, P_user (Some ''Login successful'') (u_id user) (u_name user)
                               (u_email user)),
                       User_updateActivity now (u_id user) d,
                       \<lparr>s_userId = Some (u_id user), s_email = Some (u_email user),
                        s_name = Some (u_name user)\<rparr>))))"

section \<open>Histories of the store\<close>

text \<open>
  The calls that write to the store, each with the clock reading of its statement. A call
  that throws leaves the store as it was. \<open>run\<close> performs a list of calls in order.
\<close>

datatype operation =
    Op_User_create string string string
  | Op_User_updateActivity int
  | Op_Recipe_create string int recipe_data
  | Op_Recipe_update string int recipe_data
  | Op_Recipe_delete string int
  | Op_Favorite_add int string
  | Op_Favorite_remove int string

definition perform ::
  "(string \<Rightarrow> int option) \<Rightarrow> bcrypt \<Rightarrow> int \<Rightarrow> operation \<Rightarrow> db \<Rightarrow> db" where
  "perform affinity bc now oper d =
     (case oper of
        Op_User_create name email password \<Rightarrow>
          (case User_create bc now name email password d of Inl e \<Rightarrow> d | Inr (uid, d') \<Rightarrow> d')
      | Op_User_updateActivity uid \<Rightarrow> User_updateActivity now uid d
      | Op_Recipe_create uuid userId recipeData \<Rightarrow>
          (case Recipe_create affinity uuid now userId recipeData d of
             Inl e \<Rightarrow> d | Inr (rid, d') \<Rightarrow> d')
      | Op_Recipe_update rid userId recipeData \<Rightarrow>
          (case Recipe_update affinity now rid userId recipeData d of
             Inl e \<Rightarrow> d | Inr (b, d') \<Rightarrow> d')
      | Op_Recipe_delete rid userId \<Rightarrow> snd (Recipe_delete rid userId d)
      | Op_Favorite_add userId rid \<Rightarrow>
          (case Favorite_add now userId rid d of Inl e \<Rightarrow> d | Inr (b, d') \<Rightarrow> d')
      | Op_Favorite_remove userId rid \<Rightarrow> snd (Favorite_remove userId rid d))"

fun run ::
  "(string \<Rightarrow> int option) \<Rightarrow> bcrypt \<Rightarrow> (int \<times> operation) list \<Rightarrow> db \<Rightarrow> db" where
  "run affinity bc [] d = d"
| "run affinity bc ((now, oper) # opers) d =
     run affinity bc opers (perform affinity bc now oper d)"

definition reads_zero :: "(string \<Rightarrow> int option) \<Rightarrow> recipe_data \<Rightarrow> bool" where
  \<comment> \<open>servings is a non-empty string, hence truthy, that the column reads as 0\<close>
  "reads_zero affinity recipeData =
     (case d_servings recipeData of
        Some (JS_string s) \<Rightarrow> s \<noteq> [] \<and> affinity s = Some 0
      | _ \<Rightarrow> False)"

definition writes_zero :: "(string \<Rightarrow> int option) \<Rightarrow> operation \<Rightarrow> bool" where
  \<comment> \<open>a \<open>create\<close> or \<open>update\<close> whose servings value reads as 0\<close>
  "writes_zero affinity oper =
     (case oper of
        Op_Recipe_create uuid userId recipeData \<Rightarrow> reads_zero affinity recipeData
      | Op_Recipe_update rid userId recipeData \<Rightarrow> reads_zero affinity recipeData
      | _ \<Rightarrow> False)"

definition stored_with_defaults ::
  "(string \<Rightarrow> int option) \<Rightarrow> recipe_data \<Rightarrow> recipe_row \<Rightarrow> bool" where
  \<comment> \<open>what a row written for \<open>recipeData\<close> holds: 2 for the number 0, null for an empty
      text, no empty text at all, and 0 servings only for a string that reads as 0\<close>
  "stored_with_defaults affinity recipeData r =
     ((d_servings recipeData = Some (JS_number 0) \<longrightarrow> r_servings r = Some 2) \<and>
      (d_time recipeData = Some [] \<longrightarrow> r_time r = None) \<and>
      (d_category recipeData = Some [] \<longrightarrow> r_category r = None) \<and>
      (d_source_url recipeData = Some [] \<longrightarrow> r_source_url r = None) \<and>
      (d_image_url recipeData = Some [] \<longrightarrow> r_image_url r = None) \<and>
      (d_image_path recipeData = Some [] \<longrightarrow> r_image_path r = None) \<and>
      (d_notes recipeData = Some [] \<longrightarrow> r_notes r = None) \<and>
      (r_servings r = Some 0 \<longrightarrow> reads_zero affinity recipeData) \<and>
      r_time r \<noteq> Some [] \<and> r_category r \<noteq> Some [] \<and> r_source_url r \<noteq> Some [] \<and>
      r_image_url r \<noteq> Some [] \<and> r_image_path r \<noteq> Some [] \<and> r_notes r \<noteq> Some [])"

definition empty_text_free :: "recipe_row \<Rightarrow> bool" where
  \<comment> \<open>no optional text column holds the empty string\<close>
  "empty_text_free r =
     (r_time r \<noteq> Some [] \<and> r_category r \<noteq> Some [] \<and> r_source_url r \<noteq> Some [] \<and>
      r_image_url r \<noteq> Some [] \<and> r_image_path r \<noteq> Some [] \<and> r_notes r \<noteq> Some [])"

text \<open>
  Containment of a query in a title as the search is described: the query occurs in the
  title as a run of consecutive characters, the case of ASCII letters apart.
\<close>

fun prefix_ci :: "string \<Rightarrow> string \<Rightarrow> bool" where
  "prefix_ci [] cs = True"
| "prefix_ci (q # qs) [] = False"
| "prefix_ci (q # qs) (c # cs) = (ascii_lower q = ascii_lower c \<and> prefix_ci qs cs)"

fun contains_ci :: "string \<Rightarrow> string \<Rightarrow> bool" where
  "contains_ci q [] = (q = [])"
| "contains_ci q (c # cs) = (prefix_ci q (c # cs) \<or> contains_ci q cs)"

section \<open>Example data\<close>

text \<open>A small database on which the theorems below are instantiated.\<close>

definition demo_users :: "user_row list" where
  "demo_users =
     [\<lparr>u_id = 1, u_name = ''Ann'', u_email = ''ann@x.com'', u_password_hash = ''hash-pass1'',
       u_created_at = 100, u_updated_at = 100\<rparr>,
      \<lparr>u_id = 2, u_name = ''Bob'', u_email = ''bob@x.com'', u_password_hash = ''hash-pass2'',
       u_created_at = 101, u_updated_at = 101\<rparr>]"

definition demo_data :: recipe_data where
  "demo_data =
     \<lparr>d_title = Some ''Soup'', d_time = None, d_servings = None, d_category = None,
      d_source_url = None, d_image_url = None, d_image_path = None,
      d_ingredients = Some [''water'', ''salt''], d_steps = None, d_notes = None,
      d_is_scraped = None\<rparr>"

definition demo_recipe :: recipe_row where
  "demo_recipe = new_row ''r1'' 110 1 ''Soup'' 4 (demo_data\<lparr>d_servings := Some (JS_number 4)\<rparr>)"

definition demo_db :: db where
  "demo_db =
     \<lparr>users = demo_users, recipes = [demo_recipe], favorites = [], users_seq = 2,
      favorites_seq = 0\<rparr>"

definition demo_bcrypt :: bcrypt where
  "demo_bcrypt = \<lparr>hashSync = (\<lambda>p. ''hash-'' @ p), compareSync = (\<lambda>p h. h = ''hash-'' @ p)\<rparr>"

definition demo_validation ::
  "string option \<times> js_value option \<Rightarrow> string list + string \<times> js_value" where
  \<comment> \<open>an email with an \<^verbatim>\<open>@\<close>, and a password that is not the empty string\<close>
  "demo_validation body =
     (case body of
        (Some e, Some p) \<Rightarrow>
          if CHR ''@'' \<notin> set e then Inl [''Valid email is required'']
          else if p = JS_string [] then Inl [''Password is required'']
          else Inr (e, p)
      | _ \<Rightarrow> Inl [''Valid email is required''])"

text \<open>
  A reading of texts as integers that agrees with SQLite on the texts it accepts: an
  optional sign and decimal digits, within 64 bits. Every other text is rejected here.
\<close>

fun digits_value :: "string \<Rightarrow> nat \<Rightarrow> nat option" where
  "digits_value [] acc = Some acc"
| "digits_value (c # cs) acc =
     (if (48::nat) \<le> of_char c \<and> of_char c \<le> (57::nat) then
        digits_value cs (10 * acc + (of_char c - 48))
      else None)"

definition demo_affinity :: "string \<Rightarrow> int option" where
  "demo_affinity s =
     (case s of
        [] \<Rightarrow> None
      | c # cs \<Rightarrow>
          (let digits = (if c = CHR ''-'' \<or> c = CHR ''+'' then cs else s) in
           if digits = [] then None
           else (case digits_value digits 0 of
                   None \<Rightarrow> None
                 | Some k \<Rightarrow>
                     (let n = (if c = CHR ''-'' then - int k else int k) in
                      if - (2 ^ 63) \<le> n \<and> n < 2 ^ 63 then Some n else None))))"

definition demo_env :: env where
  "demo_env = \<lparr>e_affinity = demo_affinity, e_now = 150, e_uuid = ''r3'',
     e_createRecipe_validation = Inr,
     e_updateRecipe_validation = Inr\<rparr>"



definition anonymous :: session where
  "anonymous = \<lparr>s_userId = None, s_email = None, s_name = None\<rparr>"


definition demo_history :: "(int \<times> operation) list" where
  "demo_history =
     [(100, Op_User_create ''Ann'' ''ann@x.com'' ''pass1''),
      (110, Op_Recipe_create ''r1'' 1 (demo_data\<lparr>d_servings := Some (JS_number 0), d_time := Some []\<rparr>)),
      (120, Op_Recipe_update ''r1'' 1 (demo_data\<lparr>d_servings := Some (JS_number 0), d_notes := Some []\<rparr>))]"

section \<open>Parsing what the serializer wrote\<close>

lemma unhex_hexdigit: "d < 16 \<Longrightarrow> unhex (hexdigit d) = Some d"
  by (auto simp: unhex_def hexdigit_def Let_def)

lemma unhex4_low:
  assumes "n < 32"
  shows "unhex4 (CHR ''0'') (CHR ''0'') (hexdigit (n div 16)) (hexdigit (n mod 16)) = Some (char_of n)"
proof -
  have z: "unhex (CHR ''0'') = Some 0" by (simp add: unhex_def)
  have a: "unhex (hexdigit (n div 16)) = Some (n div 16)"
    using assms by (intro unhex_hexdigit) simp
  have b: "unhex (hexdigit (n mod 16)) = Some (n mod 16)"
    by (intro unhex_hexdigit) simp
  show ?thesis using assms by (simp add: unhex4_def z a b)
qed

lemma parse_chars_escape:
  "parse_chars (escape_char c @ cs) = map_option (\<lambda>(s, r). (c # s, r)) (parse_chars cs)"
proof -
  let ?n = "of_char c :: nat"
  consider (q) "c = CHR 0x22" | (bs) "c = CHR 0x5C"
    | (b) "?n = 8" | (f) "?n = 12" | (n) "?n = 10" | (r) "?n = 13" | (t) "?n = 9"
    | (u) "?n < 32" "?n \<noteq> 8" "?n \<noteq> 12" "?n \<noteq> 10" "?n \<noteq> 13" "?n \<noteq> 9"
    | (plain) "c \<noteq> CHR 0x22" "c \<noteq> CHR 0x5C" "\<not> ?n < 32"
    by fastforce
  then show ?thesis
  proof cases
    case q then show ?thesis by (simp add: escape_char_def unescape_def)
  next
    case bs then show ?thesis by (simp add: escape_char_def unescape_def)
  next
    case b
    then have "c = char_of (8::nat)" by (metis char_of_char)
    then show ?thesis by (simp add: escape_char_def unescape_def)
  next
    case f
    then have "c = char_of (12::nat)" by (metis char_of_char)
    then show ?thesis by (simp add: escape_char_def unescape_def)
  next
    case n
    then have "c = char_of (10::nat)" by (metis char_of_char)
    then show ?thesis by (simp add: escape_char_def unescape_def)
  next
    case r
    then have "c = char_of (13::nat)" by (metis char_of_char)
    then show ?thesis by (simp add: escape_char_def unescape_def)
  next
    case t
    then have "c = char_of (9::nat)" by (metis char_of_char)
    then show ?thesis by (simp add: escape_char_def unescape_def)
  next
    case u
    have ne: "c \<noteq> CHR 0x22" "c \<noteq> CHR 0x5C" using u(1) by auto
    have "char_of ?n = c" by simp
    with u ne unhex4_low [OF u(1)] show ?thesis
      by (simp add: escape_char_def Let_def)
  next
    case plain
    then show ?thesis by (auto simp: escape_char_def Let_def)
  qed
qed

lemma parse_chars_escaped:
  "parse_chars (concat (map escape_char s) @ CHR 0x22 # rest) = Some (s, rest)"
  by (induction s) (simp_all add: parse_chars_escape)

lemma parse_string_quote: "parse_string (quote s @ rest) = Some (s, rest)"
  by (simp add: parse_string_def quote_def parse_chars_escaped)

lemma skip_ws_quote: "skip_ws (quote s @ rest) = quote s @ rest"
  by (simp add: skip_ws_def quote_def is_ws_def)

lemma skip_ws_punct:
  "skip_ws (CHR '']'' # rest) = CHR '']'' # rest"
  "skip_ws (CHR '','' # rest) = CHR '','' # rest"
  "skip_ws (CHR ''['' # rest) = CHR ''['' # rest"
  "skip_ws [] = []"
  by (simp_all add: skip_ws_def is_ws_def)


lemma parse_elems_join:
  "xs \<noteq> [] \<Longrightarrow> parse_elems (join_comma (map quote xs) @ CHR '']'' # rest) = Some (xs, rest)"
proof (induction xs rule: induct_list012)
  case 1
  then show ?case by simp
next
  case (2 x)
  show ?case
    by (subst parse_elems.simps) (simp add: parse_string_quote skip_ws_quote skip_ws_punct)
next
  case (3 x y zs)
  have "parse_elems (join_comma (map quote (y # zs)) @ CHR '']'' # rest) = Some (y # zs, rest)"
    using 3 by simp
  then show ?case
    by (subst parse_elems.simps) (simp add: parse_string_quote skip_ws_quote skip_ws_punct)
qed

lemma skip_ws_join:
  "skip_ws (join_comma (map quote (x # xs)) @ rest) = join_comma (map quote (x # xs)) @ rest"
  by (cases xs) (simp_all add: quote_def skip_ws_def is_ws_def)

lemma join_quote_Cons: "\<exists>r. join_comma (map quote (x # xs)) = CHR 0x22 # r"
  by (cases xs) (simp_all add: quote_def)

lemma JSON_parse_stringify: "JSON_parse (JSON_stringify xs) = Some xs"
proof (cases xs)
  case Nil
  then show ?thesis by (simp add: JSON_parse_def JSON_stringify_def skip_ws_punct)
next
  case (Cons x ys)
  obtain r where r: "join_comma (map quote (x # ys)) = CHR 0x22 # r"
    using join_quote_Cons by blast
  have sk: "skip_ws (join_comma (map quote (x # ys)) @ [CHR '']'']) = CHR 0x22 # r @ [CHR '']'']"
    unfolding skip_ws_join by (simp only: r append_Cons)
  have pe: "parse_elems (join_comma (map quote (x # ys)) @ [CHR '']'']) = Some (x # ys, [])"
    using parse_elems_join [of "x # ys" "[]"] by simp
  show ?thesis
    unfolding JSON_parse_def JSON_stringify_def Cons
    by (simp only: skip_ws_punct list.case sk pe) (simp add: skip_ws_punct)
qed

section \<open>Ownership filtering\<close>

lemma filter_owned_other:
  assumes "distinct (map r_id rows)" "r \<in> set rows" "r_user_id r \<noteq> B"
  shows "filter (owned (r_id r) B) rows = []"
proof -
  have "\<not> owned (r_id r) B x" if "x \<in> set rows" for x
  proof
    assume o: "owned (r_id r) B x"
    then have "r_id x = r_id r" by (simp add: owned_def)
    with assms(1,2) that have "x = r" by (meson distinct_map inj_onD)
    with o assms(3) show False by (simp add: owned_def)
  qed
  then show ?thesis by (simp add: filter_empty_conv)
qed

lemma filter_owned_missing:
  "rid \<notin> set (map r_id rows) \<Longrightarrow> filter (owned rid B) rows = []"
  by (auto simp: filter_empty_conv owned_def)

lemma update_nothing_selected:
  assumes "filter (owned rid userId) rows = []"
  shows "map (\<lambda>r. if owned rid userId r then update_row t n recipeData now r else r) rows = rows"
proof -
  have "\<not> owned rid userId x" if "x \<in> set rows" for x
    using assms that by (simp add: filter_empty_conv)
  then show ?thesis by (simp add: map_idI)
qed


lemma Recipe_create_success:
  assumes "d_title recipeData = Some t"
    and "int64_storable A"
    and "bound_servings affinity recipeData = Some n"
    and "uuid \<notin> set (map r_id (recipes d))"
    and "A \<in> set (map u_id (users d))"
  shows "Recipe_create affinity uuid now A recipeData d =
           Inr (uuid, d\<lparr>recipes := recipes d @ [new_row uuid now A t n recipeData]\<rparr>)"
  using assms by (simp add: Recipe_create_def)

lemma Recipe_create_InrD:
  assumes "Recipe_create affinity uuid now A recipeData d = Inr (rid, d')"
  shows "\<exists>t n. d_title recipeData = Some t \<and> int64_storable A \<and>
             bound_servings affinity recipeData = Some n \<and>
             uuid \<notin> set (map r_id (recipes d)) \<and>
             A \<in> set (map u_id (users d)) \<and> rid = uuid \<and>
             d' = d\<lparr>recipes := recipes d @ [new_row uuid now A t n recipeData]\<rparr>"
  using assms by (auto simp: Recipe_create_def split: option.splits if_splits)

text \<open>
  \<open>create\<close> returns exactly when the title is there, the account id and the servings fit
  their INTEGER columns, the key is fresh and the account exists.
\<close>

lemma Recipe_create_returns_iff:
  "(\<exists>rid d'. Recipe_create affinity uuid now A recipeData d = Inr (rid, d')) =
   (d_title recipeData \<noteq> None \<and> int64_storable A \<and>
    bound_servings affinity recipeData \<noteq> None \<and>
    uuid \<notin> set (map r_id (recipes d)) \<and> A \<in> set (map u_id (users d)))"
proof
  assume "\<exists>rid d'. Recipe_create affinity uuid now A recipeData d = Inr (rid, d')"
  then obtain rid d' where "Recipe_create affinity uuid now A recipeData d = Inr (rid, d')"
    by blast
  from Recipe_create_InrD [OF this] show
    "d_title recipeData \<noteq> None \<and> int64_storable A \<and>
     bound_servings affinity recipeData \<noteq> None \<and>
     uuid \<notin> set (map r_id (recipes d)) \<and> A \<in> set (map u_id (users d))"
    by auto
next
  assume a: "d_title recipeData \<noteq> None \<and> int64_storable A \<and>
     bound_servings affinity recipeData \<noteq> None \<and>
     uuid \<notin> set (map r_id (recipes d)) \<and> A \<in> set (map u_id (users d))"
  then obtain t n where "d_title recipeData = Some t" "bound_servings affinity recipeData = Some n"
    by auto
  with a show "\<exists>rid d'. Recipe_create affinity uuid now A recipeData d = Inr (rid, d')"
    by (simp add: Recipe_create_success)
qed

lemma bound_servings_cases:
  "bound_servings affinity recipeData =
     (case d_servings recipeData of
        None \<Rightarrow> Some 2
      | Some (JS_number k) \<Rightarrow>
          if k = 0 then Some 2 else if int64_storable k then Some k else None
      | Some (JS_string s) \<Rightarrow> if s = [] then Some 2 else affinity s)"
  by (simp add: bound_servings_def or_default_def strict_integer_def int64_storable_def
      split: option.splits js_value.splits)


lemma demo_recipe_sel:
  "r_id demo_recipe = ''r1''" "r_user_id demo_recipe = 1"
  by (simp_all add: demo_recipe_def new_row_def)

lemma demo_db_sel:
  "users demo_db = demo_users" "recipes demo_db = [demo_recipe]" "favorites demo_db = []"
  "favorites_seq demo_db = 0"
  by (simp_all add: demo_db_def)

lemma demo_users_ids: "map u_id demo_users = [1, 2]"
  by (simp add: demo_users_def)

text \<open>
  Claim C1. In a store whose recipe keys are unique (the primary key), a recipe of
  account \<open>A\<close> is absent for every other account \<open>B\<close>: \<open>findById\<close> returns
  \<^verbatim>\<open>undefined\<close>, the very result it gives for a key that no recipe has, and the
  handler of \<^verbatim>\<open>GET /api/recipes/:id\<close> answers both requests alike.
\<close>

theorem findById_other_account_absent:
  assumes "distinct (map r_id (recipes d))"
    and "r \<in> set (recipes d)" and "r_user_id r = A" and "B \<noteq> A"
    and "missing \<notin> set (map r_id (recipes d))"
  shows "Recipe_findById (r_id r) B d = Inr None \<and>
         Recipe_findById (r_id r) B d = Recipe_findById missing B d \<and>
         getRecipeById (r_id r) B d = getRecipeById missing B d"
  using assms
  by (simp add: getRecipeById_def Recipe_findById_def filter_owned_other filter_owned_missing)

theorem findById_other_account_absent_witness:
  "distinct (map r_id (recipes demo_db)) \<and> demo_recipe \<in> set (recipes demo_db) \<and>
   r_user_id demo_recipe = 1 \<and> (2::int) \<noteq> 1 \<and> ''r9'' \<notin> set (map r_id (recipes demo_db)) \<and>
   Recipe_findById ''r1'' 2 demo_db = Inr None \<and>
   Recipe_findById ''r1'' 2 demo_db = Recipe_findById ''r9'' 2 demo_db \<and>
   getRecipeById ''r1'' 2 demo_db = getRecipeById ''r9'' 2 demo_db"
proof -
  have h: "distinct (map r_id (recipes demo_db))" "demo_recipe \<in> set (recipes demo_db)"
    "r_user_id demo_recipe = 1" "(2::int) \<noteq> 1" "''r9'' \<notin> set (map r_id (recipes demo_db))"
    by (simp_all add: demo_db_def demo_recipe_sel)
  have c: "Recipe_findById ''r1'' 2 demo_db = Inr None \<and>
      Recipe_findById ''r1'' 2 demo_db = Recipe_findById ''r9'' 2 demo_db \<and>
      getRecipeById ''r1'' 2 demo_db = getRecipeById ''r9'' 2 demo_db"
    by (rule findById_other_account_absent [OF h, unfolded demo_recipe_sel])
  from h c show ?thesis by blast
qed

text \<open>
  Claim C3. For a recipe of account \<open>A\<close> and another account \<open>B\<close>, \<open>update\<close> and
  \<open>delete\<close> called for \<open>B\<close> both return false and leave the whole store, hence the
  recipe, as it was.
\<close>

theorem update_delete_other_account_unchanged:
  assumes "distinct (map r_id (recipes d))"
    and "r \<in> set (recipes d)" and "r_user_id r = A" and "B \<noteq> A"
  shows "Recipe_update affinity now (r_id r) B recipeData d = Inr (False, d) \<and>
         Recipe_delete (r_id r) B d = (False, d)"
proof -
  have none: "filter (owned (r_id r) B) (recipes d) = []"
    using assms by (simp add: filter_owned_other)
  then have no: "\<not> owned (r_id r) B x" if "x \<in> set (recipes d)" for x
    using that by (simp add: filter_empty_conv)
  have same: "map (\<lambda>x. if owned (r_id r) B x then update_row t n recipeData now x else x)
                (recipes d) = recipes d" for t n
    using none by (rule update_nothing_selected)
  have kept: "filter (\<lambda>x. \<not> owned (r_id r) B x) (recipes d) = recipes d"
    using no by simp
  have "Recipe_update affinity now (r_id r) B recipeData d = Inr (False, d)"
    by (simp add: Recipe_update_def none same split: option.splits)
  moreover have "Recipe_delete (r_id r) B d = (False, d)"
    by (simp add: Recipe_delete_def none kept)
  ultimately show ?thesis by simp
qed

theorem update_delete_other_account_unchanged_witness:
  "distinct (map r_id (recipes demo_db)) \<and> demo_recipe \<in> set (recipes demo_db) \<and>
   r_user_id demo_recipe = 1 \<and> (2::int) \<noteq> 1 \<and>
   Recipe_update demo_affinity 120 ''r1'' 2 demo_data demo_db = Inr (False, demo_db) \<and>
   Recipe_delete ''r1'' 2 demo_db = (False, demo_db)"
proof -
  have h: "distinct (map r_id (recipes demo_db))" "demo_recipe \<in> set (recipes demo_db)"
    "r_user_id demo_recipe = 1" "(2::int) \<noteq> 1"
    by (simp_all add: demo_db_def demo_recipe_sel)
  have c: "Recipe_update demo_affinity 120 ''r1'' 2 demo_data demo_db = Inr (False, demo_db) \<and>
      Recipe_delete ''r1'' 2 demo_db = (False, demo_db)"
    by (rule update_delete_other_account_unchanged [OF h, unfolded demo_recipe_sel])
  from h c show ?thesis by blast
qed



section \<open>Favorites\<close>

lemma favorites_insert_duplicate:
  "Favorite_isFavorited userId rid d \<Longrightarrow>
   favorites_insert now userId rid d = Inl SQLITE_CONSTRAINT_UNIQUE"
  by (simp add: favorites_insert_def Favorite_isFavorited_def)

lemma favorites_insert_new:
  assumes "\<not> Favorite_isFavorited userId rid d"
    and "userId \<in> set (map u_id (users d))" and "rid \<in> set (map r_id (recipes d))"
  shows "favorites_insert now userId rid d =
           Inr (d\<lparr>favorites := favorites d @
                     [\<lparr>f_id = favorites_seq d + 1, f_user_id = userId, f_recipe_id = rid,
                       f_created_at = now\<rparr>],
                   favorites_seq := favorites_seq d + 1\<rparr>)"
  using assms by (simp add: favorites_insert_def Favorite_isFavorited_def)

lemma favorites_insert_orphan:
  assumes "\<not> Favorite_isFavorited userId rid d"
    and "userId \<notin> set (map u_id (users d)) \<or> rid \<notin> set (map r_id (recipes d))"
  shows "favorites_insert now userId rid d = Inl SQLITE_CONSTRAINT_FOREIGNKEY"
  using assms by (auto simp: favorites_insert_def Favorite_isFavorited_def)

lemma Favorite_add_new:
  assumes "\<not> Favorite_isFavorited userId rid d"
    and "userId \<in> set (map u_id (users d))" and "rid \<in> set (map r_id (recipes d))"
  shows "Favorite_add now userId rid d =
           Inr (True, d\<lparr>favorites := favorites d @
                     [\<lparr>f_id = favorites_seq d + 1, f_user_id = userId, f_recipe_id = rid,
                       f_created_at = now\<rparr>],
                   favorites_seq := favorites_seq d + 1\<rparr>)"
  by (simp add: Favorite_add_def favorites_insert_new [OF assms])

lemma isFavorited_after_insert:
  "Favorite_isFavorited userId rid
     (d\<lparr>favorites := favorites d @
          [\<lparr>f_id = k, f_user_id = userId, f_recipe_id = rid, f_created_at = now\<rparr>],
        favorites_seq := k\<rparr>)"
  by (simp add: Favorite_isFavorited_def favorited_def)

lemma isFavorited_after_remove:
  "\<not> Favorite_isFavorited userId rid (snd (Favorite_remove userId rid d))"
  by (simp add: Favorite_isFavorited_def Favorite_remove_def filter_empty_conv)

lemma Favorite_remove_frame:
  "users (snd (Favorite_remove userId rid d)) = users d"
  "recipes (snd (Favorite_remove userId rid d)) = recipes d"
  by (simp_all add: Favorite_remove_def)

text \<open>
  Claim C7. \<open>Favorite.add\<close> returns true exactly when the pair was not there: the row
  is then inserted (one row more, the pair present once). When the pair is there already
  the unique-constraint error is absorbed: the result is false, no error, and the store
  is unchanged. Every other error of the insert is thrown on to the caller.
\<close>

theorem Favorite_add_outcomes:
  "(Favorite_isFavorited userId rid d \<longrightarrow> Favorite_add now userId rid d = Inr (False, d)) \<and>
   (\<not> Favorite_isFavorited userId rid d \<and> userId \<in> set (map u_id (users d)) \<and>
    rid \<in> set (map r_id (recipes d)) \<longrightarrow>
      (\<exists>d'. Favorite_add now userId rid d = Inr (True, d') \<and>
            Favorite_isFavorited userId rid d' \<and>
            length (filter (favorited userId rid) (favorites d')) = 1 \<and>
            length (favorites d') = Suc (length (favorites d)))) \<and>
   (\<forall>e. favorites_insert now userId rid d = Inl e \<and> e \<noteq> SQLITE_CONSTRAINT_UNIQUE \<longrightarrow>
        Favorite_add now userId rid d = Inl e) \<and>
   (\<forall>b d'. Favorite_add now userId rid d = Inr (b, d') \<longrightarrow>
        b = (\<not> Favorite_isFavorited userId rid d))"
proof (intro conjI impI allI)
  assume "Favorite_isFavorited userId rid d"
  then show "Favorite_add now userId rid d = Inr (False, d)"
    by (simp add: Favorite_add_def favorites_insert_duplicate)
next
  assume a: "\<not> Favorite_isFavorited userId rid d \<and> userId \<in> set (map u_id (users d)) \<and>
    rid \<in> set (map r_id (recipes d))"
  let ?d' = "d\<lparr>favorites := favorites d @
                     [\<lparr>f_id = favorites_seq d + 1, f_user_id = userId, f_recipe_id = rid,
                       f_created_at = now\<rparr>],
                   favorites_seq := favorites_seq d + 1\<rparr>"
  have "Favorite_add now userId rid d = Inr (True, ?d')"
    using a by (intro Favorite_add_new) simp_all
  moreover have "Favorite_isFavorited userId rid ?d'"
    by (rule isFavorited_after_insert)
  moreover have "length (filter (favorited userId rid) (favorites ?d')) = 1"
    using a by (simp add: Favorite_isFavorited_def favorited_def)
  moreover have "length (favorites ?d') = Suc (length (favorites d))"
    by simp
  ultimately show "\<exists>d'. Favorite_add now userId rid d = Inr (True, d') \<and>
            Favorite_isFavorited userId rid d' \<and>
            length (filter (favorited userId rid) (favorites d')) = 1 \<and>
            length (favorites d') = Suc (length (favorites d))"
    by blast
next
  fix e
  assume "favorites_insert now userId rid d = Inl e \<and> e \<noteq> SQLITE_CONSTRAINT_UNIQUE"
  then show "Favorite_add now userId rid d = Inl e"
    by (simp add: Favorite_add_def)
next
  fix b d'
  assume "Favorite_add now userId rid d = Inr (b, d')"
  then show "b = (\<not> Favorite_isFavorited userId rid d)"
    by (auto simp: Favorite_add_def favorites_insert_def Favorite_isFavorited_def
        split: if_splits)
qed

theorem Favorite_add_outcomes_witness:
  "\<not> Favorite_isFavorited 2 ''r1'' demo_db \<and> 2 \<in> set (map u_id (users demo_db)) \<and>
   ''r1'' \<in> set (map r_id (recipes demo_db)) \<and>
   (\<exists>d'. Favorite_add 140 2 ''r1'' demo_db = Inr (True, d') \<and>
      Favorite_isFavorited 2 ''r1'' d' \<and>
      Favorite_add 141 2 ''r1'' d' = Inr (False, d')) \<and>
   favorites_insert 140 2 ''r9'' demo_db = Inl SQLITE_CONSTRAINT_FOREIGNKEY \<and>
   SQLITE_CONSTRAINT_FOREIGNKEY \<noteq> SQLITE_CONSTRAINT_UNIQUE \<and>
   Favorite_add 140 2 ''r9'' demo_db = Inl SQLITE_CONSTRAINT_FOREIGNKEY"
proof -
  have h: "\<not> Favorite_isFavorited 2 ''r1'' demo_db" "2 \<in> set (map u_id (users demo_db))"
    "''r1'' \<in> set (map r_id (recipes demo_db))"
    by (simp_all add: Favorite_isFavorited_def demo_db_sel demo_users_ids demo_recipe_sel)
  have i: "favorites_insert 140 2 ''r9'' demo_db = Inl SQLITE_CONSTRAINT_FOREIGNKEY"
    "SQLITE_CONSTRAINT_FOREIGNKEY \<noteq> SQLITE_CONSTRAINT_UNIQUE"
    by (simp_all add: favorites_insert_def demo_db_sel demo_users_ids demo_recipe_sel)
  from Favorite_add_outcomes [of 2 "''r1''" demo_db 140] h
  obtain d' where d': "Favorite_add 140 2 ''r1'' demo_db = Inr (True, d')"
    "Favorite_isFavorited 2 ''r1'' d'"
    by blast
  from Favorite_add_outcomes [of 2 "''r1''" d' 141] d'(2)
  have again: "Favorite_add 141 2 ''r1'' d' = Inr (False, d')"
    by blast
  from Favorite_add_outcomes [of 2 "''r9''" demo_db 140] i
  have orphan: "Favorite_add 140 2 ''r9'' demo_db = Inl SQLITE_CONSTRAINT_FOREIGNKEY"
    by blast
  from h i d' again orphan show ?thesis by blast
qed

lemma toggleFavorite_on:
  assumes "rid \<noteq> []" "Favorite_isFavorited userId rid d"
  shows "toggleFavorite now (Some rid) userId d =
           ((200, P_favorited False ''Recipe removed from favorites''),
            snd (Favorite_remove userId rid d),
            [Call_Favorite_isFavorited, Call_Favorite_remove])"
  using assms by (simp add: toggleFavorite_def or_null_def)

lemma toggleFavorite_off:
  assumes "rid \<noteq> []" "\<not> Favorite_isFavorited userId rid d"
    and "userId \<in> set (map u_id (users d))" and "rid \<in> set (map r_id (recipes d))"
  shows "toggleFavorite now (Some rid) userId d =
           ((200, P_favorited True ''Recipe added to favorites''),
            d\<lparr>favorites := favorites d @
                 [\<lparr>f_id = favorites_seq d + 1, f_user_id = userId, f_recipe_id = rid,
                   f_created_at = now\<rparr>],
               favorites_seq := favorites_seq d + 1\<rparr>,
            [Call_Favorite_isFavorited, Call_Favorite_add])"
  using assms(1,2) by (simp add: toggleFavorite_def or_null_def Favorite_add_new [OF assms(2-4)])

lemma toggleFavorite_flips:
  assumes "rid \<noteq> []"
    and "userId \<in> set (map u_id (users d))" and "rid \<in> set (map r_id (recipes d))"
  shows "Favorite_isFavorited userId rid (fst (snd (toggleFavorite now (Some rid) userId d))) =
           (\<not> Favorite_isFavorited userId rid d) \<and>
         fst (toggleFavorite now (Some rid) userId d) =
           (200, P_favorited (\<not> Favorite_isFavorited userId rid d)
              (if Favorite_isFavorited userId rid d then ''Recipe removed from favorites''
               else ''Recipe added to favorites'')) \<and>
         users (fst (snd (toggleFavorite now (Some rid) userId d))) = users d \<and>
         recipes (fst (snd (toggleFavorite now (Some rid) userId d))) = recipes d"
proof (cases "Favorite_isFavorited userId rid d")
  case True
  then show ?thesis
    by (simp add: toggleFavorite_on [OF assms(1) True] isFavorited_after_remove
        Favorite_remove_frame)
next
  case False
  then show ?thesis
    by (simp add: toggleFavorite_off [OF assms(1) False assms(2,3)] isFavorited_after_insert)
qed

text \<open>
  Claim C6. For an existing account and an existing recipe, the first toggle flips the
  favorited state and answers with the new state; the second toggle flips it back, so
  that after both the recipe is favorited exactly if it was before.
\<close>

theorem toggleFavorite_twice:
  assumes "rid \<noteq> []"
    and "userId \<in> set (map u_id (users d))" and "rid \<in> set (map r_id (recipes d))"
    and "d1 = fst (snd (toggleFavorite now1 (Some rid) userId d))"
    and "d2 = fst (snd (toggleFavorite now2 (Some rid) userId d1))"
  shows "Favorite_isFavorited userId rid d1 = (\<not> Favorite_isFavorited userId rid d) \<and>
         Favorite_isFavorited userId rid d2 = Favorite_isFavorited userId rid d \<and>
         fst (toggleFavorite now1 (Some rid) userId d) =
           (200, P_favorited (\<not> Favorite_isFavorited userId rid d)
              (if Favorite_isFavorited userId rid d then ''Recipe removed from favorites''
               else ''Recipe added to favorites'')) \<and>
         fst (toggleFavorite now2 (Some rid) userId d1) =
           (200, P_favorited (Favorite_isFavorited userId rid d)
              (if Favorite_isFavorited userId rid d then ''Recipe added to favorites''
               else ''Recipe removed from favorites''))"
proof -
  note first = toggleFavorite_flips [OF assms(1-3), of now1, folded assms(4)]
  have u: "userId \<in> set (map u_id (users d1))" and r: "rid \<in> set (map r_id (recipes d1))"
    using first assms(2,3) by simp_all
  note second = toggleFavorite_flips [OF assms(1) u r, of now2, folded assms(5)]
  show ?thesis
    using first second by auto
qed

theorem toggleFavorite_twice_witness:
  "''r1'' \<noteq> [] \<and> 2 \<in> set (map u_id (users demo_db)) \<and>
   ''r1'' \<in> set (map r_id (recipes demo_db)) \<and>
   \<not> Favorite_isFavorited 2 ''r1'' demo_db \<and>
   Favorite_isFavorited 2 ''r1'' (fst (snd (toggleFavorite 140 (Some ''r1'') 2 demo_db))) \<and>
   \<not> Favorite_isFavorited 2 ''r1''
      (fst (snd (toggleFavorite 141 (Some ''r1'') 2
         (fst (snd (toggleFavorite 140 (Some ''r1'') 2 demo_db))))))"
proof -
  have h: "''r1'' \<noteq> []" "2 \<in> set (map u_id (users demo_db))"
    "''r1'' \<in> set (map r_id (recipes demo_db))"
    by (simp_all add: demo_db_sel demo_users_ids demo_recipe_sel)
  have n: "\<not> Favorite_isFavorited 2 ''r1'' demo_db"
    by (simp add: Favorite_isFavorited_def demo_db_sel)
  from toggleFavorite_twice [OF h refl refl, of 140 141] n h show ?thesis
    by blast
qed

section \<open>Login and the authentication check\<close>

text \<open>
  With a string for a password the two failures of a login are answered alike: status
  401 with one error code and one message, store and session unchanged.
\<close>

lemma login_string_password_failures_alike:
  assumes "validation body1 = Inr (email1, password1)"
    and "User_findByEmail email1 d1 = None"
    and "validation body2 = Inr (email2, JS_string password2)"
    and "User_findByEmail email2 d2 = Some user"
    and "\<not> compareSync bc password2 (u_password_hash user)"
  shows "login bc validation now1 body1 sess1 d1 =
           ((401, P_error ''Invalid credentials'' (Some ''Incorrect email or password'')),
            d1, sess1) \<and>
         login bc validation now2 body2 sess2 d2 =
           ((401, P_error ''Invalid credentials'' (Some ''Incorrect email or password'')),
            d2, sess2)"
  using assms by (simp add: login_def User_verifyPassword_def bcrypt_compareSync_def)

lemma login_unknown_email:
  assumes "validation body = Inr (email, password)" and "User_findByEmail email d = None"
  shows "login bc validation now body sess d =
           ((401, P_error ''Invalid credentials'' (Some ''Incorrect email or password'')),
            d, sess)"
  using assms by (simp add: login_def)

lemma login_non_string_password:
  assumes "validation body = Inr (email, JS_number k)" and "User_findByEmail email d = Some user"
  shows "login bc validation now body sess d =
           ((500, P_error ''Login failed'' (Some ''An error occurred during login'')), d, sess)"
  using assms by (simp add: login_def User_verifyPassword_def bcrypt_compareSync_def)

text \<open>
  Claim C8 at the password \<^verbatim>\<open>12345\<close>, a number. The validation lets it through. For
  \<^verbatim>\<open>ann@x.com\<close>, who has an account, \<^verbatim>\<open>bcrypt.compareSync\<close> throws and the answer is
  500, login failed; for \<^verbatim>\<open>eve@x.com\<close>, who has none, the password is never looked at
  and the answer is 401, invalid credentials. The two failures are told apart.
\<close>

theorem login_number_password_tells_accounts_apart:
  "demo_validation (Some ''ann@x.com'', Some (JS_number 12345)) =
     Inr (''ann@x.com'', JS_number 12345) \<and>
   demo_validation (Some ''eve@x.com'', Some (JS_number 12345)) =
     Inr (''eve@x.com'', JS_number 12345) \<and>
   map u_email (users demo_db) = [''ann@x.com'', ''bob@x.com''] \<and>
   login demo_bcrypt demo_validation 200 (Some ''ann@x.com'', Some (JS_number 12345))
       anonymous demo_db =
     ((500, P_error ''Login failed'' (Some ''An error occurred during login'')),
      demo_db, anonymous) \<and>
   login demo_bcrypt demo_validation 200 (Some ''eve@x.com'', Some (JS_number 12345))
       anonymous demo_db =
     ((401, P_error ''Invalid credentials'' (Some ''Incorrect email or password'')),
      demo_db, anonymous) \<and>
   fst (login demo_bcrypt demo_validation 200 (Some ''ann@x.com'', Some (JS_number 12345))
       anonymous demo_db) \<noteq>
   fst (login demo_bcrypt demo_validation 200 (Some ''eve@x.com'', Some (JS_number 12345))
       anonymous demo_db)"
proof -
  have v: "demo_validation (Some ''ann@x.com'', Some (JS_number 12345)) =
     Inr (''ann@x.com'', JS_number 12345)"
    "demo_validation (Some ''eve@x.com'', Some (JS_number 12345)) =
     Inr (''eve@x.com'', JS_number 12345)"
    by (simp_all add: demo_validation_def)
  have u: "map u_email (users demo_db) = [''ann@x.com'', ''bob@x.com'']"
    by (simp add: demo_db_def demo_users_def)
  have ann: "User_findByEmail ''ann@x.com'' demo_db = Some (hd demo_users)"
    and eve: "User_findByEmail ''eve@x.com'' demo_db = None"
    by (simp_all add: User_findByEmail_def demo_db_def demo_users_def)
  have a: "login demo_bcrypt demo_validation 200 (Some ''ann@x.com'', Some (JS_number 12345))
       anonymous demo_db =
     ((500, P_error ''Login failed'' (Some ''An error occurred during login'')),
      demo_db, anonymous)"
    using v(1) ann by (rule login_non_string_password)
  have e: "login demo_bcrypt demo_validation 200 (Some ''eve@x.com'', Some (JS_number 12345))
       anonymous demo_db =
     ((401, P_error ''Invalid credentials'' (Some ''Incorrect email or password'')),
      demo_db, anonymous)"
    using v(2) eve by (rule login_unknown_email)
  show ?thesis
    by (simp only: v u a e) simp
qed

lemma requireAuth_rejects:
  "s_userId sess = None \<or> s_userId sess = Some 0 \<Longrightarrow>
   requireAuth sess = Inl (401, P_error ''Authentication required''
                  (Some ''You must be logged in to access this resource''))"
  by (auto simp: requireAuth_def)

text \<open>
  Claim C2. A request to a recipe route or a favorite route whose session identifies no
  account (\<^verbatim>\<open>userId\<close> is missing or falsy) is answered with 401, authentication
  required; no access component is called and the store is as before.
\<close>

theorem unauthenticated_rejected_before_access:
  assumes "s_userId sess = None \<or> s_userId sess = Some 0"
  shows "recipes_router ev sess req d =
           ((401, P_error ''Authentication required''
               (Some ''You must be logged in to access this resource'')), d, []) \<and>
         favorites_router ev sess freq d =
           ((401, P_error ''Authentication required''
               (Some ''You must be logged in to access this resource'')), d, [])"
  by (simp add: recipes_router_def favorites_router_def requireAuth_rejects [OF assms])

theorem unauthenticated_rejected_before_access_witness:
  "(s_userId \<lparr>s_userId = None, s_email = None, s_name = None\<rparr> = None \<or>
    s_userId \<lparr>s_userId = None, s_email = None, s_name = None\<rparr> = Some 0) \<and>
   recipes_router demo_env \<lparr>s_userId = None, s_email = None, s_name = None\<rparr> GET_recipes demo_db =
     ((401, P_error ''Authentication required''
         (Some ''You must be logged in to access this resource'')), demo_db, []) \<and>
   favorites_router demo_env \<lparr>s_userId = None, s_email = None, s_name = None\<rparr>
       (POST_favorites_toggle (Some ''r1'')) demo_db =
     ((401, P_error ''Authentication required''
         (Some ''You must be logged in to access this resource'')), demo_db, []) \<and>
   snd (snd (recipes_router demo_env \<lparr>s_userId = Some 1, s_email = None, s_name = None\<rparr>
       GET_recipes demo_db)) = [Call_Recipe_findByUserId]"
proof -
  have h: "s_userId \<lparr>s_userId = None, s_email = None, s_name = None\<rparr> = None \<or>
    s_userId \<lparr>s_userId = None, s_email = None, s_name = None\<rparr> = Some 0"
    by simp
  have a: "snd (snd (recipes_router demo_env \<lparr>s_userId = Some 1, s_email = None, s_name = None\<rparr>
       GET_recipes demo_db)) = [Call_Recipe_findByUserId]"
    by (simp add: recipes_router_def requireAuth_def getAllRecipes_def split: sum.splits)
  from unauthenticated_rejected_before_access
    [OF h, of demo_env GET_recipes demo_db "POST_favorites_toggle (Some ''r1'')"] h a
  show ?thesis by blast
qed

section \<open>Updates and defaulting\<close>



lemma or_null_truthy: "s \<noteq> [] \<Longrightarrow> or_null (Some s) = Some s"
  by (simp add: or_null_def)





lemma update_row_frame:
  "r_id (update_row t n recipeData now r) = r_id r"
  "r_user_id (update_row t n recipeData now r) = r_user_id r"
  "r_created_at (update_row t n recipeData now r) = r_created_at r"
  "r_is_scraped (update_row t n recipeData now r) = r_is_scraped r"
  by (simp_all add: update_row_def)



lemma Recipe_update_InrD:
  assumes "Recipe_update affinity now rid userId recipeData d = Inr (b, d')"
  shows "d' = d \<or>
         (\<exists>t n. bound_servings affinity recipeData = Some n \<and>
            d' = d\<lparr>recipes :=
                  map (\<lambda>r. if owned rid userId r then update_row t n recipeData now r else r)
                    (recipes d)\<rparr>)"
  using assms by (auto simp: Recipe_update_def split: if_splits option.splits)





text \<open>
  What a call can do to the recipe rows: nothing, append one row under a fresh key,
  rewrite the rows it selects, or remove the rows it selects; a row that is written was
  stored with the defaults applied. Two facts follow for every store reached from the
  empty one: the recipe keys are pairwise different (the hypothesis of C1 and C3), and
  no optional text column holds the empty string.
\<close>

lemma recipes_User_create:
  "User_create bc now name email password d = Inr (uid, d') \<Longrightarrow> recipes d' = recipes d"
  by (auto simp: User_create_def split: if_splits)

lemma recipes_User_updateActivity: "recipes (User_updateActivity now uid d) = recipes d"
  by (simp add: User_updateActivity_def)

lemma recipes_Favorite_add:
  "Favorite_add now userId rid d = Inr (b, d') \<Longrightarrow> recipes d' = recipes d"
  by (auto simp: Favorite_add_def favorites_insert_def split: if_splits)

lemma recipes_Favorite_remove: "recipes (snd (Favorite_remove userId rid d)) = recipes d"
  by (simp add: Favorite_remove_def)

lemma recipes_Recipe_delete:
  "recipes (snd (Recipe_delete rid userId d)) = filter (\<lambda>r. \<not> owned rid userId r) (recipes d)"
  by (simp add: Recipe_delete_def)

lemma recipes_perform_cases:
  "recipes (perform affinity bc now oper d) = recipes d \<or>
   (\<exists>uuid userId t n recipeData.
      recipes (perform affinity bc now oper d) =
        recipes d @ [new_row uuid now userId t n recipeData] \<and>
      uuid \<notin> set (map r_id (recipes d)) \<and>
      bound_servings affinity recipeData = Some n \<and>
      (writes_zero affinity oper = reads_zero affinity recipeData)) \<or>
   (\<exists>rid userId t n recipeData.
      recipes (perform affinity bc now oper d) =
        map (\<lambda>r. if owned rid userId r then update_row t n recipeData now r else r)
          (recipes d) \<and>
      bound_servings affinity recipeData = Some n \<and>
      (writes_zero affinity oper = reads_zero affinity recipeData)) \<or>
   (\<exists>rid userId.
      recipes (perform affinity bc now oper d) =
        filter (\<lambda>r. \<not> owned rid userId r) (recipes d))"
proof (cases oper)
  case (Op_User_create name email password)
  then show ?thesis
    by (auto simp: perform_def split: sum.splits dest: recipes_User_create)
next
  case (Op_User_updateActivity uid)
  then show ?thesis by (simp add: perform_def recipes_User_updateActivity)
next
  case (Op_Recipe_create uuid userId recipeData)
  show ?thesis
  proof (cases "Recipe_create affinity uuid now userId recipeData d")
    case (Inl e)
    with Op_Recipe_create show ?thesis by (simp add: perform_def)
  next
    case (Inr p)
    obtain rid d' where p: "p = (rid, d')" by (cases p)
    from Recipe_create_InrD [OF Inr [unfolded p]] obtain t n where
      "uuid \<notin> set (map r_id (recipes d))"
      "bound_servings affinity recipeData = Some n"
      "d' = d\<lparr>recipes := recipes d @ [new_row uuid now userId t n recipeData]\<rparr>"
      by blast
    moreover have "recipes (perform affinity bc now oper d) = recipes d'"
      using Op_Recipe_create Inr p by (simp add: perform_def)
    moreover have "writes_zero affinity oper = reads_zero affinity recipeData"
      using Op_Recipe_create by (simp add: writes_zero_def)
    ultimately have "recipes (perform affinity bc now oper d) =
        recipes d @ [new_row uuid now userId t n recipeData] \<and>
      uuid \<notin> set (map r_id (recipes d)) \<and>
      bound_servings affinity recipeData = Some n \<and>
      (writes_zero affinity oper = reads_zero affinity recipeData)"
      by simp
    then show ?thesis by blast
  qed
next
  case (Op_Recipe_update rid userId recipeData)
  show ?thesis
  proof (cases "Recipe_update affinity now rid userId recipeData d")
    case (Inl e)
    with Op_Recipe_update show ?thesis by (simp add: perform_def)
  next
    case (Inr p)
    obtain b d' where p: "p = (b, d')" by (cases p)
    have r: "recipes (perform affinity bc now oper d) = recipes d'"
      using Op_Recipe_update Inr p by (simp add: perform_def)
    have w: "writes_zero affinity oper = reads_zero affinity recipeData"
      using Op_Recipe_update by (simp add: writes_zero_def)
    from Recipe_update_InrD [OF Inr [unfolded p]] consider "d' = d"
      | t n where "bound_servings affinity recipeData = Some n"
          "d' = d\<lparr>recipes :=
                  map (\<lambda>r. if owned rid userId r then update_row t n recipeData now r else r)
                    (recipes d)\<rparr>"
      by blast
    then show ?thesis
    proof cases
      case 1
      with r show ?thesis by simp
    next
      case 2
      then have "recipes (perform affinity bc now oper d) =
          map (\<lambda>r. if owned rid userId r then update_row t n recipeData now r else r)
            (recipes d) \<and>
        bound_servings affinity recipeData = Some n \<and>
        (writes_zero affinity oper = reads_zero affinity recipeData)"
        using r w by simp
      then show ?thesis by blast
    qed
  qed
next
  case (Op_Recipe_delete rid userId)
  then show ?thesis
    by (auto simp: perform_def recipes_Recipe_delete)
next
  case (Op_Favorite_add userId rid)
  then show ?thesis
    by (auto simp: perform_def split: sum.splits dest: recipes_Favorite_add)
next
  case (Op_Favorite_remove userId rid)
  then show ?thesis by (simp add: perform_def recipes_Favorite_remove)
qed

lemma empty_text_free_written:
  "stored_with_defaults affinity recipeData r \<Longrightarrow> empty_text_free r"
  by (simp add: stored_with_defaults_def empty_text_free_def)








lemma map_r_id_update:
  "map r_id (map (\<lambda>r. if owned rid userId r then update_row t n recipeData now r else r) rows) =
   map r_id rows"
  by (induction rows) (simp_all add: update_row_frame)

lemma perform_recipe_keys_distinct:
  assumes "distinct (map r_id (recipes d))"
  shows "distinct (map r_id (recipes (perform affinity bc now oper d)))"
proof -
  from recipes_perform_cases [of affinity bc now oper d] consider
      "recipes (perform affinity bc now oper d) = recipes d"
    | uuid userId t n recipeData where
        "recipes (perform affinity bc now oper d) =
           recipes d @ [new_row uuid now userId t n recipeData]"
        "uuid \<notin> set (map r_id (recipes d))"
    | rid userId t n recipeData where
        "recipes (perform affinity bc now oper d) =
           map (\<lambda>r. if owned rid userId r then update_row t n recipeData now r else r)
             (recipes d)"
    | rid userId where
        "recipes (perform affinity bc now oper d) =
           filter (\<lambda>r. \<not> owned rid userId r) (recipes d)"
    by blast
  then show ?thesis
  proof cases
    case 1
    with assms show ?thesis by simp
  next
    case 2
    with assms show ?thesis by (simp add: new_row_def)
  next
    case 3
    with assms show ?thesis by (simp only: map_r_id_update)
  next
    case 4
    with assms show ?thesis by (simp add: distinct_map_filter)
  qed
qed

lemma run_recipe_keys_distinct:
  "distinct (map r_id (recipes d)) \<Longrightarrow>
   distinct (map r_id (recipes (run affinity bc opers d)))"
proof (induction opers arbitrary: d)
  case Nil
  then show ?case by simp
next
  case (Cons a opers)
  obtain now oper where a: "a = (now, oper)" by (cases a)
  show ?case
    unfolding a run.simps
    by (rule Cons.IH) (rule perform_recipe_keys_distinct [OF Cons.prems])
qed

lemma reachable_recipe_keys_distinct:
  "distinct (map r_id (recipes (run affinity bc opers InitializeDatabase)))"
  by (rule run_recipe_keys_distinct) (simp add: InitializeDatabase_def)



lemma demo_history_rows:
  "map r_servings (recipes (run demo_affinity demo_bcrypt demo_history InitializeDatabase)) =
     [Some 2] \<and>
   map r_time (recipes (run demo_affinity demo_bcrypt demo_history InitializeDatabase)) =
     [None] \<and>
   map r_notes (recipes (run demo_affinity demo_bcrypt demo_history InitializeDatabase)) =
     [None] \<and>
   map r_updated_at (recipes (run demo_affinity demo_bcrypt demo_history InitializeDatabase)) =
     [120]"
  by (simp add: demo_history_def InitializeDatabase_def perform_def User_create_def
      Recipe_create_def Recipe_update_def new_row_def update_row_def owned_def demo_data_def
      bound_servings_cases or_null_def int64_storable_def)



section \<open>Search\<close>

text \<open>
  \<open>sql_like\<close> against the described containment. A leading \<^verbatim>\<open>%\<close> skips any number
  of characters, a run of pattern characters without \<^verbatim>\<open>%\<close> and \<^verbatim>\<open>_\<close> matches a run of
  the same length up to the case of ASCII letters. So for a query without wildcard
  characters the search selects exactly the titles that contain it; the empty query
  selects every recipe of the account, and the result is ordered newest first.
\<close>

lemma sql_like_percent:
  "sql_like (CHR ''%'' # ps) cs = (\<exists>k \<le> length cs. sql_like ps (drop k cs))"
proof (induction cs)
  case Nil
  then show ?case by simp
next
  case (Cons c cs)
  have "(\<exists>k \<le> length (c # cs). sql_like ps (drop k (c # cs))) =
        (sql_like ps (c # cs) \<or> (\<exists>k \<le> length cs. sql_like ps (drop k cs)))"
  proof
    assume "\<exists>k \<le> length (c # cs). sql_like ps (drop k (c # cs))"
    then obtain k where k: "k \<le> length (c # cs)" "sql_like ps (drop k (c # cs))" by blast
    show "sql_like ps (c # cs) \<or> (\<exists>k \<le> length cs. sql_like ps (drop k cs))"
    proof (cases k)
      case 0
      with k show ?thesis by simp
    next
      case (Suc j)
      with k have "j \<le> length cs" "sql_like ps (drop j cs)" by simp_all
      then show ?thesis by blast
    qed
  next
    assume "sql_like ps (c # cs) \<or> (\<exists>k \<le> length cs. sql_like ps (drop k cs))"
    then show "\<exists>k \<le> length (c # cs). sql_like ps (drop k (c # cs))"
    proof
      assume "sql_like ps (c # cs)"
      then have "0 \<le> length (c # cs) \<and> sql_like ps (drop 0 (c # cs))" by simp
      then show ?thesis by blast
    next
      assume "\<exists>k \<le> length cs. sql_like ps (drop k cs)"
      then obtain k where "k \<le> length cs" "sql_like ps (drop k cs)" by blast
      then have "Suc k \<le> length (c # cs) \<and> sql_like ps (drop (Suc k) (c # cs))" by simp
      then show ?thesis by blast
    qed
  qed
  with Cons show ?case by simp
qed

lemma sql_like_only_percent: "sql_like [CHR ''%''] cs"
  by (induction cs) simp_all

lemma sql_like_literal:
  assumes "CHR ''%'' \<notin> set q" "CHR ''_'' \<notin> set q"
  shows "sql_like (q @ ps) cs = (\<exists>m r. cs = m @ r \<and> length m = length q \<and>
           map ascii_lower m = map ascii_lower q \<and> sql_like ps r)"
  using assms
proof (induction q arbitrary: cs)
  case Nil
  then show ?case by simp
next
  case (Cons a q)
  then have a: "a \<noteq> CHR ''%''" "a \<noteq> CHR ''_''" and q: "CHR ''%'' \<notin> set q" "CHR ''_'' \<notin> set q"
    by auto
  note IH = Cons.IH [OF q]
  show ?case
  proof (cases cs)
    case Nil
    then show ?thesis using a by simp
  next
    case (Cons c cs1)
    have "sql_like ((a # q) @ ps) (c # cs1) =
          (ascii_lower a = ascii_lower c \<and> sql_like (q @ ps) cs1)"
      using a by simp
    also have "\<dots> = (ascii_lower a = ascii_lower c \<and>
          (\<exists>m r. cs1 = m @ r \<and> length m = length q \<and>
             map ascii_lower m = map ascii_lower q \<and> sql_like ps r))"
      by (simp only: IH)
    also have "\<dots> = (\<exists>m r. c # cs1 = m @ r \<and> length m = length (a # q) \<and>
           map ascii_lower m = map ascii_lower (a # q) \<and> sql_like ps r)"
    proof
      assume "ascii_lower a = ascii_lower c \<and>
          (\<exists>m r. cs1 = m @ r \<and> length m = length q \<and>
             map ascii_lower m = map ascii_lower q \<and> sql_like ps r)"
      then obtain m r where "ascii_lower a = ascii_lower c" "cs1 = m @ r" "length m = length q"
        "map ascii_lower m = map ascii_lower q" "sql_like ps r" by blast
      then have "c # cs1 = (c # m) @ r \<and> length (c # m) = length (a # q) \<and>
           map ascii_lower (c # m) = map ascii_lower (a # q) \<and> sql_like ps r" by simp
      then show "\<exists>m r. c # cs1 = m @ r \<and> length m = length (a # q) \<and>
           map ascii_lower m = map ascii_lower (a # q) \<and> sql_like ps r" by blast
    next
      assume "\<exists>m r. c # cs1 = m @ r \<and> length m = length (a # q) \<and>
           map ascii_lower m = map ascii_lower (a # q) \<and> sql_like ps r"
      then obtain m r where m: "c # cs1 = m @ r" "length m = length (a # q)"
           "map ascii_lower m = map ascii_lower (a # q)" "sql_like ps r" by blast
      then obtain m1 where m1: "m = c # m1" by (cases m) auto
      with m have "ascii_lower a = ascii_lower c" "cs1 = m1 @ r" "length m1 = length q"
        "map ascii_lower m1 = map ascii_lower q" by simp_all
      with m(4) show "ascii_lower a = ascii_lower c \<and>
          (\<exists>m r. cs1 = m @ r \<and> length m = length q \<and>
             map ascii_lower m = map ascii_lower q \<and> sql_like ps r)" by blast
    qed
    finally show ?thesis using Cons by simp
  qed
qed

lemma prefix_ci_iff:
  "prefix_ci q cs = (\<exists>m r. cs = m @ r \<and> length m = length q \<and>
      map ascii_lower m = map ascii_lower q)"
proof (induction q cs rule: prefix_ci.induct)
  case (1 cs)
  then show ?case by simp
next
  case (2 q qs)
  then show ?case by simp
next
  case (3 q qs c cs)
  show ?case
  proof
    assume "prefix_ci (q # qs) (c # cs)"
    with 3 obtain m r where "ascii_lower q = ascii_lower c" "cs = m @ r" "length m = length qs"
      "map ascii_lower m = map ascii_lower qs" by auto
    then have "c # cs = (c # m) @ r \<and> length (c # m) = length (q # qs) \<and>
      map ascii_lower (c # m) = map ascii_lower (q # qs)" by simp
    then show "\<exists>m r. c # cs = m @ r \<and> length m = length (q # qs) \<and>
      map ascii_lower m = map ascii_lower (q # qs)" by blast
  next
    assume "\<exists>m r. c # cs = m @ r \<and> length m = length (q # qs) \<and>
      map ascii_lower m = map ascii_lower (q # qs)"
    then obtain m r where m: "c # cs = m @ r" "length m = length (q # qs)"
      "map ascii_lower m = map ascii_lower (q # qs)" by blast
    then obtain m1 where "m = c # m1" by (cases m) auto
    with m have "ascii_lower q = ascii_lower c" "cs = m1 @ r" "length m1 = length qs"
      "map ascii_lower m1 = map ascii_lower qs" by simp_all
    with 3 show "prefix_ci (q # qs) (c # cs)" by auto
  qed
qed

lemma contains_ci_iff: "contains_ci q cs = (\<exists>k \<le> length cs. prefix_ci q (drop k cs))"
proof (induction cs)
  case Nil
  then show ?case by (cases q) simp_all
next
  case (Cons c cs)
  have "(\<exists>k \<le> length (c # cs). prefix_ci q (drop k (c # cs))) =
        (prefix_ci q (c # cs) \<or> (\<exists>k \<le> length cs. prefix_ci q (drop k cs)))"
  proof
    assume "\<exists>k \<le> length (c # cs). prefix_ci q (drop k (c # cs))"
    then obtain k where k: "k \<le> length (c # cs)" "prefix_ci q (drop k (c # cs))" by blast
    show "prefix_ci q (c # cs) \<or> (\<exists>k \<le> length cs. prefix_ci q (drop k cs))"
    proof (cases k)
      case 0
      with k show ?thesis by simp
    next
      case (Suc j)
      with k have "j \<le> length cs" "prefix_ci q (drop j cs)" by simp_all
      then show ?thesis by blast
    qed
  next
    assume "prefix_ci q (c # cs) \<or> (\<exists>k \<le> length cs. prefix_ci q (drop k cs))"
    then show "\<exists>k \<le> length (c # cs). prefix_ci q (drop k (c # cs))"
    proof
      assume "prefix_ci q (c # cs)"
      then have "0 \<le> length (c # cs) \<and> prefix_ci q (drop 0 (c # cs))" by simp
      then show ?thesis by blast
    next
      assume "\<exists>k \<le> length cs. prefix_ci q (drop k cs)"
      then obtain k where "k \<le> length cs" "prefix_ci q (drop k cs)" by blast
      then have "Suc k \<le> length (c # cs) \<and> prefix_ci q (drop (Suc k) (c # cs))" by simp
      then show ?thesis by blast
    qed
  qed
  with Cons show ?case by simp
qed

lemma sql_like_contains:
  assumes "CHR ''%'' \<notin> set q" "CHR ''_'' \<notin> set q"
  shows "sql_like (CHR ''%'' # q @ [CHR ''%'']) title = contains_ci q title"
proof -
  have "sql_like (q @ [CHR ''%'']) cs = prefix_ci q cs" for cs
    by (simp only: sql_like_literal [OF assms] prefix_ci_iff sql_like_only_percent simp_thms)
  then show ?thesis
    by (simp only: sql_like_percent contains_ci_iff)
qed

lemma sql_like_empty_query: "sql_like (CHR ''%'' # [] @ [CHR ''%'']) title"
  by (induction title) simp_all

lemma search_empty_query: "Recipe_search userId [] d = Recipe_findByUserId userId d"
proof -
  have "sql_like [CHR ''%'', CHR ''%''] title" for title
    using sql_like_empty_query [of title] by simp
  then show ?thesis
    by (simp add: Recipe_search_def Recipe_findByUserId_def)
qed

lemma search_is_filtered_list:
  "Recipe_search userId query d =
     parse_rows (filter (\<lambda>r. sql_like (CHR ''%'' # query @ [CHR ''%'']) (r_title r))
       (order_by_created_desc (filter (\<lambda>r. r_user_id r = userId) (recipes d))))"
  by (simp add: Recipe_search_def order_by_created_desc_def filter_sort conj_commute)

lemma search_no_match:
  assumes "\<forall>r \<in> set (recipes d). r_user_id r = userId \<longrightarrow>
             \<not> sql_like (CHR ''%'' # query @ [CHR ''%'']) (r_title r)"
  shows "Recipe_search userId query d = Inr []"
proof -
  have "filter (\<lambda>r. r_user_id r = userId \<and> sql_like (CHR ''%'' # query @ [CHR ''%'']) (r_title r))
          (recipes d) = []"
    using assms by (auto simp: filter_empty_conv)
  then show ?thesis
    by (simp add: Recipe_search_def order_by_created_desc_def)
qed

lemma search_wildcard_free:
  assumes "CHR ''%'' \<notin> set query" "CHR ''_'' \<notin> set query"
  shows "Recipe_search userId query d =
     parse_rows (order_by_created_desc
       (filter (\<lambda>r. r_user_id r = userId \<and> contains_ci query (r_title r)) (recipes d)))"
  by (simp only: Recipe_search_def sql_like_contains [OF assms])

lemma order_by_created_desc_sorted:
  "sorted (rev (map r_created_at (order_by_created_desc rows)))"
proof -
  have "sorted (map (\<lambda>r. - r_created_at r) (order_by_created_desc rows))"
    unfolding order_by_created_desc_def by (rule sorted_sort_key)
  then have "sorted (map uminus (map r_created_at (order_by_created_desc rows)))"
    by (simp add: comp_def)
  then show ?thesis
    by (simp add: sorted_wrt_rev sorted_map sorted_wrt_map)
qed

text \<open>
  Claim C5 at the query \<^verbatim>\<open>S__p\<close>. Account 1 owns one recipe, titled \<^verbatim>\<open>Soup\<close>. The
  search returns it, as the listing of the account does, although the title does not
  contain the query: \<^verbatim>\<open>_\<close> in the query reaches the \<^verbatim>\<open>LIKE\<close> pattern as a wildcard.
\<close>

theorem search_wildcard_query:
  "Recipe_search 1 ''S__p'' demo_db = Recipe_findByUserId 1 demo_db \<and>
   map o_title (projr (Recipe_search 1 ''S__p'' demo_db)) = [''Soup''] \<and>
   \<not> isl (Recipe_search 1 ''S__p'' demo_db) \<and>
   \<not> contains_ci ''S__p'' ''Soup''"
  by (simp add: Recipe_search_def Recipe_findByUserId_def demo_db_def demo_recipe_def
      new_row_def order_by_created_desc_def demo_data_def parse_row_def JSON_parse_stringify
      or_empty_def ascii_lower_def)


end
